theory Spec2Isabelle
  imports Main
begin

section \<open>Amounts and JavaScript numbers\<close>

text \<open>
  Amounts are wei values. The source carries them as decimal strings, as \<open>bigint\<close> and
  as Prisma decimals; the model holds the integer such a value denotes.  Three conversions
  of the source leave the integers: \<open>Number(x)\<close>, \<open>parseFloat(s)\<close> and the
  addition Redis performs on sorted-set scores.  Each yields the IEEE-754 double nearest to the
  exact value (ties to the even mantissa).  On integers that double is again an integer, so the
  model computes it on integers: \<open>toDouble\<close> keeps 53 significant bits.  (Magnitudes of
  \<open>2 ^ 1024\<close> and more, where JavaScript answers \<open>Infinity\<close>, are not
  distinguished; a \<open>uint256\<close> stays far below.)
\<close>

function expo :: "int \<Rightarrow> nat" where
  "expo n = (if n < 2 ^ 53 then 0 else Suc (expo (n div 2)))"
  by pat_completeness auto
termination
  by (relation "measure nat") auto

declare expo.simps [simp del]

definition roundToEven :: "int \<Rightarrow> int" where
  "roundToEven n =
     (let e = expo n; q = n div 2 ^ e; r = n mod 2 ^ e
      in if 2 ^ e < 2 * r \<or> (2 * r = 2 ^ e \<and> odd q) then (q + 1) * 2 ^ e else q * 2 ^ e)"

definition toDouble :: "int \<Rightarrow> int" where
  "toDouble n = (if n < 0 then - roundToEven (- n) else roundToEven n)"

text \<open>\<open>Number(x)\<close> on a decimal column and \<open>parseFloat(s)\<close> on an amount string.\<close>

definition Number :: "int \<Rightarrow> int" where
  "Number x = toDouble x"

definition parseFloat :: "int \<Rightarrow> int" where
  "parseFloat s = toDouble s"

section \<open>Strings\<close>

text \<open>
  \<open>toLowerCase\<close> on the characters an address can hold (ASCII): capital letters
  are mapped to small ones, every other character stays.
\<close>

definition lowerChar :: "char \<Rightarrow> char" where
  "lowerChar c =
     (case map_of (zip ''ABCDEFGHIJKLMNOPQRSTUVWXYZ'' ''abcdefghijklmnopqrstuvwxyz'') c of
        Some l \<Rightarrow> l
      | None \<Rightarrow> c)"

definition toLowerCase :: "string \<Rightarrow> string" where
  "toLowerCase s = map lowerChar s"

section \<open>Stream events\<close>

text \<open>
  \<open>DonationEvent\<close>, the payload \<open>DonationEventSchema\<close> describes, and
  \<open>RawSdsEvent\<close>, the envelope.  A payload that is not an object with these fields at
  these types is \<open>Malformed\<close>.
\<close>

record donation_payload =
  p_version :: string
  p_eventId :: string
  p_donor :: string
  p_amount :: int
  p_message :: "string option"
  p_category :: string
  p_campaignId :: string
  p_campaignOnChainId :: string
  p_txHash :: string
  p_timestamp :: int
  p_blockNumber :: "int option"

datatype payload = Malformed | DonationFields donation_payload

record raw_sds_event =
  r_id :: string
  r_type :: string
  r_streamId :: string
  r_payload :: payload
  r_timestamp :: int

section \<open>The persistent store, the cache and broker, the logs\<close>

datatype donation_status = PENDING | CONFIRMED | FAILED | ORPHANED

datatype campaign_status = DRAFT | ACTIVE | PAUSED | COMPLETED | CANCELLED

datatype withdrawal_status = W_PENDING | W_PROCESSING | W_COMPLETED | W_CANCELLED

record donation =
  d_id :: string
  txHash :: string
  d_campaignId :: string
  donorAddress :: string
  amount :: int
  message :: "string option"
  sdsEventId :: "string option"
  sdsReceivedAt :: "int option"
  d_status :: donation_status
  blockNumber :: "int option"
  blockTimestamp :: "int option"
  confirmedAt :: "int option"
  createdAt :: int

record campaign =
  c_id :: string
  onChainId :: string
  title :: string
  sdsStreamId :: string
  targetAmount :: int
  currentAmount :: int
  donorCount :: int
  c_status :: campaign_status

record donor =
  address :: string
  totalDonated :: int
  donationCount :: int
  campaignCount :: int
  firstDonationAt :: int
  lastDonationAt :: int

record withdrawal =
  w_id :: string
  w_campaignId :: string
  toAddress :: string
  w_amount :: int
  w_status :: withdrawal_status
  w_txHash :: "string option"
  w_blockNumber :: "int option"
  processedAt :: "int option"

record sds_event_row =
  s_eventId :: string
  s_streamId :: string
  s_eventType :: string
  s_payload :: payload
  receivedAt :: int
  s_processedAt :: "int option"
  processingError :: "string option"
  retryCount :: int

text \<open>
  The messages on the broadcast channels.  \<open>RealtimeCampaignUpdateEvent\<close> also
  carries \<open>progress\<close>, a floating-point percentage for display; nothing the model
  keeps depends on it and it is left out.
\<close>

record donation_event_data =
  ev_id :: string
  ev_txHash :: string
  ev_campaignId :: string
  ev_campaignTitle :: string
  ev_donorAddress :: string
  ev_amount :: int
  ev_message :: "string option"
  ev_isAnonymous :: bool
  ev_status :: donation_status
  ev_timestamp :: int

datatype realtime_event =
    RealtimeDonation donation_event_data
  | RealtimeCampaignUpdate string int int

datatype log_level = Debug | Info | Warn | Error

record world =
  donations :: "donation list"
  campaigns :: "campaign list"
  donors :: "donor list"
  withdrawals :: "withdrawal list"
  sdsEvents :: "sds_event_row list"
  published :: "(string \<times> realtime_event) list"
  feeds :: "string \<Rightarrow> realtime_event list"
  leaderboards :: "string \<times> string \<Rightarrow> int option"
  cache :: "string \<Rightarrow> string option"
  logs :: "(log_level \<times> string) list"
  emitted :: "string list"

text \<open>
  A call either returns or throws; in both cases the writes made so far stay.
\<close>

datatype outcome = Done world | Threw string world

fun world_of :: "outcome \<Rightarrow> world" where
  "world_of (Done w) = w"
| "world_of (Threw e w) = w"

definition andThen :: "outcome \<Rightarrow> (world \<Rightarrow> outcome) \<Rightarrow> outcome" where
  "andThen r k = (case r of Done w \<Rightarrow> k w | Threw e w \<Rightarrow> Threw e w)"

definition logMsg :: "log_level \<Rightarrow> string \<Rightarrow> world \<Rightarrow> world" where
  "logMsg l m w = w\<lparr>logs := logs w @ [(l, m)]\<rparr>"

subsection \<open>Prisma client calls\<close>

text \<open>
  \<open>findUnique\<close> reads by a unique column, \<open>create\<close> rejects a second row with the
  same unique column (P2002), \<open>update\<close> rejects a missing row (P2025).
\<close>

definition donation_findUnique :: "string \<Rightarrow> world \<Rightarrow> donation option" where
  "donation_findUnique h w = find (\<lambda>d. txHash d = h) (donations w)"

definition campaign_findUnique_onChainId :: "string \<Rightarrow> world \<Rightarrow> campaign option" where
  "campaign_findUnique_onChainId oc w = find (\<lambda>c. onChainId c = oc) (campaigns w)"

definition campaign_findUnique_id :: "string \<Rightarrow> world \<Rightarrow> campaign option" where
  "campaign_findUnique_id i w = find (\<lambda>c. c_id c = i) (campaigns w)"

definition donation_create :: "donation \<Rightarrow> world \<Rightarrow> outcome" where
  "donation_create d w =
     (if \<exists>x \<in> set (donations w). txHash x = txHash d then Threw ''P2002'' w
      else Done (w\<lparr>donations := donations w @ [d]\<rparr>))"

definition donation_update :: "string \<Rightarrow> (donation \<Rightarrow> donation) \<Rightarrow> world \<Rightarrow> outcome" where
  "donation_update i f w =
     (if \<exists>x \<in> set (donations w). d_id x = i
      then Done (w\<lparr>donations := map (\<lambda>x. if d_id x = i then f x else x) (donations w)\<rparr>)
      else Threw ''P2025'' w)"

definition campaign_modify :: "string \<Rightarrow> (campaign \<Rightarrow> campaign) \<Rightarrow> world \<Rightarrow> world" where
  "campaign_modify i f w =
     w\<lparr>campaigns := map (\<lambda>c. if c_id c = i then f c else c) (campaigns w)\<rparr>"

subsection \<open>Redis client calls\<close>

definition redis_publish :: "string \<Rightarrow> realtime_event \<Rightarrow> world \<Rightarrow> world" where
  "redis_publish channel m w = w\<lparr>published := published w @ [(channel, m)]\<rparr>"

definition redis_del :: "string \<Rightarrow> world \<Rightarrow> world" where
  "redis_del k w = w\<lparr>cache := (cache w)(k := None)\<rparr>"

text \<open>\<open>delPattern(p + '*')\<close>: every key that starts with \<open>p\<close> goes.\<close>

definition redis_delPattern :: "string \<Rightarrow> world \<Rightarrow> world" where
  "redis_delPattern p w =
     w\<lparr>cache := (\<lambda>k. if take (length p) k = p then None else cache w k)\<rparr>"

definition pushToFeed :: "string \<Rightarrow> realtime_event \<Rightarrow> world \<Rightarrow> world" where
  "pushToFeed k m w = w\<lparr>feeds := (feeds w)(k := take 100 (m # feeds w k))\<rparr>"

definition incrementLeaderboard :: "string \<Rightarrow> string \<Rightarrow> int \<Rightarrow> world \<Rightarrow> world" where
  "incrementLeaderboard k member increment w =
     w\<lparr>leaderboards := (leaderboards w)((k, member) \<mapsto>
          toDouble ((case leaderboards w (k, member) of None \<Rightarrow> 0 | Some s \<Rightarrow> s) + increment))\<rparr>"

definition CacheKeys_campaign :: "string \<Rightarrow> string" where
  "CacheKeys_campaign i = ''campaign:'' @ i"

definition CacheKeys_leaderboard_global :: string where
  "CacheKeys_leaderboard_global = ''leaderboard:global''"

definition CacheKeys_leaderboard_campaign :: "string \<Rightarrow> string" where
  "CacheKeys_leaderboard_campaign i = ''leaderboard:campaign:'' @ i"

definition CacheKeys_recentDonations_global :: string where
  "CacheKeys_recentDonations_global = ''donations:recent:global''"

definition CacheKeys_recentDonations_campaign :: "string \<Rightarrow> string" where
  "CacheKeys_recentDonations_campaign i = ''donations:recent:'' @ i"

section \<open>Ledger Watcher\<close>

text \<open>
  \<open>DonationReceivedEvent\<close>.  \<open>l_campaignId\<close> is \<open>event.campaignId.toString()\<close>,
  the only form in which the handler uses the on-chain id.
\<close>

record donation_received =
  l_campaignId :: string
  l_donor :: string
  l_amount :: int
  l_message :: string
  l_transactionHash :: string
  l_blockNumber :: int
  l_blockTimestamp :: int

definition updateCampaignTotals :: "string \<Rightarrow> int \<Rightarrow> world \<Rightarrow> outcome" where
  "updateCampaignTotals campaignId amountWei w =
     (case campaign_findUnique_id campaignId w of
        None \<Rightarrow> Threw ''P2025'' w
      | Some c0 \<Rightarrow>
          let cmp = c0\<lparr>currentAmount := currentAmount c0 + amountWei,
                       donorCount := donorCount c0 + 1\<rparr>;
              w1 = campaign_modify campaignId
                     (\<lambda>c. c\<lparr>currentAmount := currentAmount c + amountWei,
                             donorCount := donorCount c + 1\<rparr>) w;
              w2 = redis_publish ''campaign_updates''
                     (RealtimeCampaignUpdate campaignId (currentAmount cmp) (donorCount cmp)) w1;
              w3 = redis_del (CacheKeys_campaign campaignId) w2;
              w4 = redis_delPattern ''campaigns:'' w3
          in if Number (targetAmount cmp) \<le> Number (currentAmount cmp)
             then Done (logMsg Info ''Campaign reached target, marked as completed''
                         (campaign_modify campaignId (\<lambda>c. c\<lparr>c_status := COMPLETED\<rparr>) w4))
             else Done w4)"

text \<open>
  \<open>newId\<close> is the id the store gives a created row, \<open>now\<close> the clock.
\<close>

definition processDonationConfirmation ::
  "donation_received \<Rightarrow> int \<Rightarrow> string \<Rightarrow> world \<Rightarrow> outcome" where
  "processDonationConfirmation event now newId w =
     (let h = l_transactionHash event in
      case donation_findUnique h w of
        None \<Rightarrow>
          (let w1 = logMsg Info ''On-chain donation not found in DB, creating...'' w in
           case campaign_findUnique_onChainId (l_campaignId event) w1 of
             None \<Rightarrow> Done (logMsg Error ''Campaign not found for on-chain donation'' w1)
           | Some cmp \<Rightarrow>
               andThen
                 (donation_create
                    \<lparr>d_id = newId, txHash = h, d_campaignId = c_id cmp,
                     donorAddress = toLowerCase (l_donor event),
                     amount = l_amount event,
                     message = (if l_message event = [] then None else Some (l_message event)),
                     sdsEventId = None, sdsReceivedAt = None,
                     d_status = CONFIRMED,
                     blockNumber = Some (l_blockNumber event),
                     blockTimestamp = Some (l_blockTimestamp event * 1000),
                     confirmedAt = Some now, createdAt = now\<rparr> w1)
                 (updateCampaignTotals (c_id cmp) (l_amount event)))
      | Some d \<Rightarrow>
          andThen
            (andThen
               (donation_update (d_id d)
                  (\<lambda>x. x\<lparr>d_status := CONFIRMED,
                          blockNumber := Some (l_blockNumber event),
                          blockTimestamp := Some (l_blockTimestamp event * 1000),
                          confirmedAt := Some now\<rparr>) w)
               (updateCampaignTotals (d_campaignId d) (l_amount event)))
            (\<lambda>w'. Done (logMsg Info ''Donation confirmed on-chain'' w')))"

text \<open>
  The listener callback: whatever the handler throws is logged.  (The callback first fetches
  the receipt and the block of the event; the model starts where both have arrived.)
\<close>

definition onDonationReceived :: "donation_received \<Rightarrow> int \<Rightarrow> string \<Rightarrow> world \<Rightarrow> world" where
  "onDonationReceived event now newId w =
     (case processDonationConfirmation event now newId w of
        Done w' \<Rightarrow> w'
      | Threw e w' \<Rightarrow> logMsg Error ''Error processing donation event'' w')"

definition handleCampaignCompleted :: "string \<Rightarrow> world \<Rightarrow> world" where
  "handleCampaignCompleted oc w =
     (case campaign_findUnique_onChainId oc w of
        None \<Rightarrow> logMsg Warn ''Campaign not found for completion event'' w
      | Some cmp \<Rightarrow>
          logMsg Info ''Campaign marked as completed''
            (redis_delPattern ''campaigns:''
              (redis_del (CacheKeys_campaign (c_id cmp))
                (campaign_modify (c_id cmp) (\<lambda>c. c\<lparr>c_status := COMPLETED\<rparr>) w))))"

text \<open>
  \<open>withdrawal.updateMany\<close>: every row that matches the filter is rewritten; no match is
  not an error.
\<close>

definition handleWithdrawal ::
  "string \<Rightarrow> string \<Rightarrow> int \<Rightarrow> string \<Rightarrow> int \<Rightarrow> int \<Rightarrow> world \<Rightarrow> world" where
  "handleWithdrawal oc toAddr amt h blockNo now w =
     (case campaign_findUnique_onChainId oc w of
        None \<Rightarrow> logMsg Warn ''Campaign not found for withdrawal event'' w
      | Some cmp \<Rightarrow>
          logMsg Info ''Withdrawal processed''
            (w\<lparr>withdrawals :=
                 map (\<lambda>x. if w_campaignId x = c_id cmp \<and> toAddress x = toLowerCase toAddr
                              \<and> w_amount x = amt \<and> w_status x = W_PROCESSING
                           then x\<lparr>w_status := W_COMPLETED, w_txHash := Some h,
                                  w_blockNumber := Some blockNo, processedAt := Some now\<rparr>
                           else x)
                     (withdrawals w)\<rparr>))"

section \<open>Reconciler\<close>

text \<open>
  What \<open>provider.getTransactionReceipt\<close> answers for a transaction hash: no receipt
  (\<open>null\<close>), a receipt with its \<open>status\<close> (\<open>null\<close>, 0 or 1) and block number, or
  a failed call.
\<close>

datatype receipt_answer = NoReceipt | Receipt "int option" int | RpcFailure

definition orphanTimeoutMs :: int where
  "orphanTimeoutMs = 300000"

definition findPendingDonations :: "int \<Rightarrow> world \<Rightarrow> donation list" where
  "findPendingDonations now w =
     filter (\<lambda>d. d_status d = PENDING \<and> createdAt d < now - orphanTimeoutMs) (donations w)"

text \<open>
  \<open>BigInt(x.toString())\<close> for a decimal column \<open>x\<close> that holds an integer.  The
  decimal prints a magnitude of \<open>10 ^ 21\<close> or more in exponent form
  (\<open>'1e+21'\<close>), which \<open>BigInt\<close> refuses with a \<open>SyntaxError\<close>.
\<close>

definition BigInt_toString :: "int \<Rightarrow> int option" where
  "BigInt_toString x = (if \<bar>x\<bar> < 10 ^ 21 then Some x else None)"

text \<open>
  The body of the sweep's loop for one row of the snapshot, with its \<open>try\<close>/\<open>catch\<close>.
  The row is the one read by \<open>findMany\<close>; the writes go to the store as it is now.
  The amount goes to \<open>updateCampaignTotals\<close> as \<open>donation.amount.toString()\<close>,
  which that function hands to \<open>BigInt\<close> before it writes anything.
\<close>

definition reconcileDonation ::
  "(string \<Rightarrow> receipt_answer) \<Rightarrow> int \<Rightarrow> donation \<Rightarrow> world \<Rightarrow> world" where
  "reconcileDonation provider now d w =
     (let r =
        (case provider (txHash d) of
           RpcFailure \<Rightarrow> Threw ''getTransactionReceipt'' w
         | Receipt st blockNo \<Rightarrow>
             if st = Some 1
             then andThen
                    (andThen
                       (donation_update (d_id d)
                          (\<lambda>x. x\<lparr>d_status := CONFIRMED, blockNumber := Some blockNo,
                                  confirmedAt := Some now\<rparr>) w)
                       (\<lambda>w'. case BigInt_toString (amount d) of
                                None \<Rightarrow> Threw ''SyntaxError'' w'
                              | Some a \<Rightarrow> updateCampaignTotals (d_campaignId d) a w'))
                    (\<lambda>w'. Done (logMsg Info ''Orphan donation reconciled as confirmed'' w'))
             else andThen
                    (donation_update (d_id d) (\<lambda>x. x\<lparr>d_status := FAILED\<rparr>) w)
                    (\<lambda>w'. Done (logMsg Info ''Orphan donation marked as failed'' w'))
         | NoReceipt \<Rightarrow>
             andThen
               (donation_update (d_id d) (\<lambda>x. x\<lparr>d_status := ORPHANED\<rparr>) w)
               (\<lambda>w'. Done (logMsg Warn ''Donation marked as orphaned - no on-chain record'' w')))
      in case r of
           Done w' \<Rightarrow> w'
         | Threw e w' \<Rightarrow> logMsg Error ''Error reconciling donation'' w')"

fun reconcileAll ::
  "(string \<Rightarrow> receipt_answer) \<Rightarrow> int \<Rightarrow> donation list \<Rightarrow> world \<Rightarrow> world" where
  "reconcileAll provider now [] w = w"
| "reconcileAll provider now (d # ds) w =
     reconcileAll provider now ds (reconcileDonation provider now d w)"

definition runReconciliation :: "(string \<Rightarrow> receipt_answer) \<Rightarrow> int \<Rightarrow> world \<Rightarrow> world" where
  "runReconciliation provider now w =
     (let w1 = logMsg Info ''Starting reconciliation run...'' w;
          pendingDonations = findPendingDonations now w1
      in logMsg Info ''Reconciliation run completed''
           (reconcileAll provider now pendingDonations w1))"

section \<open>Stream Listener: donation announcements\<close>

definition isHex :: "char \<Rightarrow> bool" where
  "isHex c = (c \<in> set ''0123456789abcdefABCDEF'')"

text \<open>The two regular expressions of the schema: \<open>0x\<close> and 40, or 64, hex digits.\<close>

definition isAddress :: "string \<Rightarrow> bool" where
  "isAddress s = (length s = 42 \<and> take 2 s = ''0x'' \<and> list_all isHex (drop 2 s))"

definition isTxHash :: "string \<Rightarrow> bool" where
  "isTxHash s = (length s = 66 \<and> take 2 s = ''0x'' \<and> list_all isHex (drop 2 s))"

text \<open>
  \<open>DonationEventSchema.safeParse\<close>.  The test behind \<open>z.string().uuid()\<close> belongs
  to the validation library; it is the parameter \<open>isUuid\<close>.
\<close>

definition DonationEventSchema_safeParse ::
  "(string \<Rightarrow> bool) \<Rightarrow> payload \<Rightarrow> donation_payload option" where
  "DonationEventSchema_safeParse isUuid p =
     (case p of
        Malformed \<Rightarrow> None
      | DonationFields f \<Rightarrow>
          if p_version f = ''v1'' \<and> isUuid (p_eventId f) \<and> isAddress (p_donor f)
             \<and> (case p_message f of None \<Rightarrow> True | Some m \<Rightarrow> length m \<le> 500)
             \<and> isTxHash (p_txHash f)
          then Some f else None)"

definition donor_upsert :: "string \<Rightarrow> int \<Rightarrow> int \<Rightarrow> world \<Rightarrow> world" where
  "donor_upsert addr amt now w =
     (if \<exists>x \<in> set (donors w). address x = addr
      then w\<lparr>donors := map (\<lambda>x. if address x = addr
                                 then x\<lparr>totalDonated := totalDonated x + amt,
                                        donationCount := donationCount x + 1,
                                        lastDonationAt := now\<rparr>
                                 else x) (donors w)\<rparr>
      else w\<lparr>donors := donors w @
                [\<lparr>address = addr, totalDonated = amt, donationCount = 1, campaignCount = 1,
                  firstDonationAt = now, lastDonationAt = now\<rparr>]\<rparr>)"

definition handleDonationEvent ::
  "(string \<Rightarrow> bool) \<Rightarrow> raw_sds_event \<Rightarrow> int \<Rightarrow> string \<Rightarrow> world \<Rightarrow> outcome" where
  "handleDonationEvent isUuid event now newId w =
     (case DonationEventSchema_safeParse isUuid (r_payload event) of
        None \<Rightarrow> Done (logMsg Warn ''Invalid donation event schema'' w)
      | Some donation \<Rightarrow>
          (case donation_findUnique (p_txHash donation) w of
             Some existing \<Rightarrow> Done (logMsg Debug ''Duplicate donation event, skipping'' w)
           | None \<Rightarrow>
               (case campaign_findUnique_onChainId (p_campaignOnChainId donation) w of
                  None \<Rightarrow> Done (logMsg Warn ''Campaign not found for donation'' w)
                | Some cmp \<Rightarrow>
                    andThen
                      (donation_create
                         \<lparr>d_id = newId, txHash = p_txHash donation, d_campaignId = c_id cmp,
                          donorAddress = toLowerCase (p_donor donation),
                          amount = p_amount donation,
                          message = p_message donation,
                          sdsEventId = Some (p_eventId donation),
                          sdsReceivedAt = Some (p_timestamp donation),
                          d_status = PENDING,
                          blockNumber = (case p_blockNumber donation of
                                           None \<Rightarrow> None
                                         | Some b \<Rightarrow> if b = 0 then None else Some b),
                          blockTimestamp = None, confirmedAt = None, createdAt = now\<rparr> w)
                      (\<lambda>w1.
                         let w2 = donor_upsert (toLowerCase (p_donor donation))
                                    (p_amount donation) now w1;
                             donationEvent = RealtimeDonation
                               \<lparr>ev_id = newId, ev_txHash = p_txHash donation,
                                ev_campaignId = c_id cmp, ev_campaignTitle = title cmp,
                                ev_donorAddress = p_donor donation,
                                ev_amount = p_amount donation,
                                ev_message = p_message donation,
                                ev_isAnonymous = False, ev_status = PENDING,
                                ev_timestamp = p_timestamp donation\<rparr>;
                             w3 = pushToFeed CacheKeys_recentDonations_global donationEvent w2;
                             w4 = pushToFeed (CacheKeys_recentDonations_campaign (c_id cmp))
                                    donationEvent w3;
                             w5 = incrementLeaderboard CacheKeys_leaderboard_global
                                    (toLowerCase (p_donor donation))
                                    (parseFloat (p_amount donation)) w4;
                             w6 = incrementLeaderboard (CacheKeys_leaderboard_campaign (c_id cmp))
                                    (toLowerCase (p_donor donation))
                                    (parseFloat (p_amount donation)) w5;
                             w7 = redis_publish ''donations'' donationEvent w6;
                             w8 = w7\<lparr>emitted := emitted w7 @ [''donation'']\<rparr>
                         in Done (logMsg Info ''Donation event processed'' w8)))))"

definition sdsEvent_create :: "sds_event_row \<Rightarrow> world \<Rightarrow> outcome" where
  "sdsEvent_create r w =
     (if \<exists>x \<in> set (sdsEvents w). s_eventId x = s_eventId r then Threw ''P2002'' w
      else Done (w\<lparr>sdsEvents := sdsEvents w @ [r]\<rparr>))"

definition sdsEvent_update ::
  "string \<Rightarrow> (sds_event_row \<Rightarrow> sds_event_row) \<Rightarrow> world \<Rightarrow> outcome" where
  "sdsEvent_update i f w =
     (if \<exists>x \<in> set (sdsEvents w). s_eventId x = i
      then Done (w\<lparr>sdsEvents := map (\<lambda>x. if s_eventId x = i then f x else x) (sdsEvents w)\<rparr>)
      else Threw ''P2025'' w)"

definition handleEvent ::
  "(string \<Rightarrow> bool) \<Rightarrow> raw_sds_event \<Rightarrow> int \<Rightarrow> string \<Rightarrow> world \<Rightarrow> world" where
  "handleEvent isUuid event now newId w =
     (let r =
        andThen
          (andThen
             (andThen
                (sdsEvent_create
                   \<lparr>s_eventId = r_id event, s_streamId = r_streamId event,
                    s_eventType = r_type event, s_payload = r_payload event,
                    receivedAt = now, s_processedAt = None, processingError = None,
                    retryCount = 0\<rparr> w)
                (\<lambda>w1. if r_type event = ''donation''
                       then handleDonationEvent isUuid event now newId w1 else Done w1))
             (sdsEvent_update (r_id event) (\<lambda>x. x\<lparr>s_processedAt := Some now\<rparr>)))
          (\<lambda>w3. Done (logMsg Debug ''Event processed'' w3))
      in case r of
           Done w' \<Rightarrow> w'
         | Threw e w' \<Rightarrow>
             (case sdsEvent_update (r_id event)
                     (\<lambda>x. x\<lparr>processingError := Some e, retryCount := retryCount x + 1\<rparr>)
                     (logMsg Error ''Failed to process event'' w') of
                Done w'' \<Rightarrow> w''
              | Threw e' w'' \<Rightarrow> logMsg Error ''Failed to update event error'' w''))"

section \<open>Stream Listener: connection state\<close>

definition reconnectInterval :: nat where
  "reconnectInterval = 5000"


text \<open>
  \<open>SdsConnectionState\<close> with the timers of the service.  \<open>reconnectTimer\<close> holds the
  delay of the armed timer, \<open>None\<close> when none is waiting; \<open>l_sent\<close> are the
  subscription requests written to the socket.  \<open>hasSocket\<close> says that a socket carrying
  the service's handlers has been created, \<open>errorListener\<close> that a handler for
  \<open>'error'\<close> is registered on the service (the service is an \<open>EventEmitter\<close>).
\<close>

record listener =
  connected :: bool
  reconnectAttempts :: nat
  lastConnectedAt :: "int option"
  lastError :: "string option"
  subscribedStreams :: "string list"
  pendingSubscriptions :: "string list"
  reconnectTimer :: "nat option"
  heartbeatTimer :: bool
  hasSocket :: bool
  errorListener :: bool
  l_sent :: "(string \<times> string) list"
  l_emitted :: "string list"
  l_logs :: "(log_level \<times> string) list"


definition l_log :: "log_level \<Rightarrow> string \<Rightarrow> listener \<Rightarrow> listener" where
  "l_log l m st = st\<lparr>l_logs := l_logs st @ [(l, m)]\<rparr>"

definition emit :: "string \<Rightarrow> listener \<Rightarrow> listener" where
  "emit e st = st\<lparr>l_emitted := l_emitted st @ [e]\<rparr>"

text \<open>
  \<open>emit('error', ...)\<close> on an emitter without a handler for \<open>'error'\<close> throws the
  error instead of returning.  The result says whether the call returned.
\<close>

definition emit_error :: "listener \<Rightarrow> bool \<times> listener" where
  "emit_error st = (if errorListener st then (True, emit ''error'' st) else (False, st))"

definition stopHeartbeat :: "listener \<Rightarrow> listener" where
  "stopHeartbeat st = st\<lparr>heartbeatTimer := False\<rparr>"

definition startHeartbeat :: "listener \<Rightarrow> listener" where
  "startHeartbeat st = (stopHeartbeat st)\<lparr>heartbeatTimer := True\<rparr>"

definition scheduleReconnect :: "listener \<Rightarrow> listener" where
  "scheduleReconnect st =
     (let delay = min (reconnectInterval * 2 ^ reconnectAttempts st) 60000
      in (l_log Info ''Scheduling reconnection...'' st)\<lparr>reconnectTimer := Some delay\<rparr>)"


text \<open>
  On open the socket is writable, so \<open>subscribeToStream\<close> sends each request; the
  streams that were waiting leave \<open>pendingSubscriptions\<close>.
\<close>

definition resubscribeToStreams :: "listener \<Rightarrow> listener" where
  "resubscribeToStreams st =
     st\<lparr>l_sent := l_sent st @ map (Pair ''subscribe'') (subscribedStreams st)
                            @ map (Pair ''subscribe'') (pendingSubscriptions st),
        pendingSubscriptions := []\<rparr>"

text \<open>
  What the configured endpoint, a constant of the process, does to \<open>connect\<close>: it is
  accepted, or \<open>new URL\<close> throws on it, or \<open>new WebSocket\<close> throws on it.  For an
  accepted endpoint the new socket then reports \<open>open\<close> or, before that, an error.
\<close>

datatype endpoint = EndpointOk | EndpointInvalidUrl | EndpointSocketThrows

datatype socket_outcome = Opens | Errors string

text \<open>
  How the promise of \<open>connect\<close> ends.  In the handler for the socket's error,
  \<open>reject\<close> stands after \<open>emit('error', error)\<close> and under
  \<open>if (!this.state.connected)\<close>: when the emit throws, or the service counts as
  connected, the promise stays pending.
\<close>

datatype settled = Resolved | Rejected | Pending

definition connect ::
  "endpoint \<Rightarrow> socket_outcome \<Rightarrow> int \<Rightarrow> listener \<Rightarrow> settled \<times> listener" where
  "connect cfg outcome now st =
     (case cfg of
        EndpointInvalidUrl \<Rightarrow> (Rejected, l_log Error ''Failed to connect to SDS'' st)
      | EndpointSocketThrows \<Rightarrow>
          (Rejected,
           l_log Error ''Failed to connect to SDS'' (l_log Info ''Connecting to SDS...'' st))
      | EndpointOk \<Rightarrow>
          (let st0 = (l_log Info ''Connecting to SDS...'' st)\<lparr>hasSocket := True\<rparr> in
           case outcome of
             Opens \<Rightarrow>
               (Resolved,
                emit ''connected''
                  (resubscribeToStreams
                    (startHeartbeat
                      ((l_log Info ''Connected to SDS'' st0)
                         \<lparr>connected := True, reconnectAttempts := 0,
                          lastConnectedAt := Some now\<rparr>))))
           | Errors msg \<Rightarrow>
               (case emit_error ((l_log Error ''SDS WebSocket error'' st0)
                                   \<lparr>lastError := Some msg\<rparr>) of
                  (False, st1) \<Rightarrow> (Pending, st1)
                | (True, st1) \<Rightarrow> (if connected st1 then Pending else Rejected, st1))))"

text \<open>
  The callback of the reconnect timer.  Its \<open>catch\<close> runs when the promise rejects;
  while the promise is pending the callback does not go on.
\<close>

definition reconnectTimerFired ::
  "endpoint \<Rightarrow> socket_outcome \<Rightarrow> int \<Rightarrow> listener \<Rightarrow> listener" where
  "reconnectTimerFired cfg outcome now st =
     (let st1 = st\<lparr>reconnectAttempts := reconnectAttempts st + 1, reconnectTimer := None\<rparr>
      in case connect cfg outcome now st1 of
           (Rejected, st2) \<Rightarrow> scheduleReconnect (l_log Error ''Reconnection failed'' st2)
         | (Resolved, st2) \<Rightarrow> st2
         | (Pending, st2) \<Rightarrow> st2)"






text \<open>
  \<open>handleMessage\<close>: the text from the socket either does not parse or is an object whose
  \<open>type\<close> selects the branch.  For \<open>'event'\<close> the object itself is handed to
  \<open>handleEvent\<close> as the \<open>RawSdsEvent\<close>, so its \<open>type\<close> is what
  \<open>handleEvent\<close> reads as the event type.
\<close>

datatype sds_text = Unparseable | Message raw_sds_event

definition handleMessage ::
  "(string \<Rightarrow> bool) \<Rightarrow> sds_text \<Rightarrow> int \<Rightarrow> string \<Rightarrow> listener \<times> world
     \<Rightarrow> listener \<times> world" where
  "handleMessage isUuid data now newId sw =
     (case sw of (st, w) \<Rightarrow>
        (case data of
           Unparseable \<Rightarrow> (l_log Error ''Failed to parse SDS message'' st, w)
         | Message m \<Rightarrow>
             if r_type m = ''event'' then (st, handleEvent isUuid m now newId w)
             else if r_type m = ''subscribed''
               then ((l_log Info ''Subscribed to stream'' st)
                       \<lparr>subscribedStreams :=
                          (if r_streamId m \<in> set (subscribedStreams st)
                           then subscribedStreams st
                           else subscribedStreams st @ [r_streamId m])\<rparr>, w)
             else if r_type m = ''unsubscribed''
               then ((l_log Info ''Unsubscribed from stream'' st)
                       \<lparr>subscribedStreams :=
                          filter (\<lambda>s. s \<noteq> r_streamId m) (subscribedStreams st)\<rparr>, w)
             else if r_type m = ''error'' then (l_log Error ''SDS error message'' st, w)
             else if r_type m = ''pong'' then (st, w)
             else (l_log Debug ''Unknown message type'' st, w)))"

section \<open>Fan-out Hub\<close>

datatype ws_message =
    MsgConnected string
  | MsgSubscribed "string list"
  | MsgUnsubscribed "string list"
  | MsgPong
  | MsgEvent string realtime_event

text \<open>
  A \<open>Client\<close>: \<open>cl_open\<close> says the socket's \<open>readyState\<close> is \<open>OPEN\<close>,
  \<open>cl_subscribedStreams\<close> is the \<open>Set\<close> in insertion order, \<open>cl_received\<close> what
  was written to the socket.  The registry is the \<open>Map\<close> in insertion order.
\<close>

record client =
  cl_id :: string
  cl_open :: bool
  cl_subscribedStreams :: "string list"
  cl_received :: "ws_message list"

definition sendToClient :: "client \<Rightarrow> ws_message \<Rightarrow> client" where
  "sendToClient c m = (if cl_open c then c\<lparr>cl_received := cl_received c @ [m]\<rparr> else c)"

definition set_add :: "string \<Rightarrow> string list \<Rightarrow> string list" where
  "set_add x xs = (if x \<in> set xs then xs else xs @ [x])"

definition handleSubscribe :: "client \<Rightarrow> string list option \<Rightarrow> client" where
  "handleSubscribe c streams =
     (case streams of
        None \<Rightarrow> c
      | Some ss \<Rightarrow>
          (let c1 = c\<lparr>cl_subscribedStreams := foldl (\<lambda>acc s. set_add s acc) (cl_subscribedStreams c) ss\<rparr>
           in sendToClient c1 (MsgSubscribed (cl_subscribedStreams c1))))"

definition handleUnsubscribe :: "client \<Rightarrow> string list option \<Rightarrow> client" where
  "handleUnsubscribe c streams =
     (case streams of
        None \<Rightarrow> c
      | Some ss \<Rightarrow>
          sendToClient
            (c\<lparr>cl_subscribedStreams := filter (\<lambda>s. s \<notin> set ss) (cl_subscribedStreams c)\<rparr>)
            (MsgUnsubscribed ss))"






section \<open>Example data\<close>

definition campaign1 :: campaign where
  "campaign1 =
     \<lparr>c_id = ''c1'', onChainId = ''1'', title = ''Wells'', sdsStreamId = ''stream-1'',
      targetAmount = 5000000000000000000, currentAmount = 0, donorCount = 0,
      c_status = ACTIVE\<rparr>"

definition world0 :: world where
  "world0 =
     \<lparr>donations = [], campaigns = [campaign1], donors = [], withdrawals = [], sdsEvents = [],
      published = [], feeds = (\<lambda>k. []), leaderboards = (\<lambda>k. None), cache = (\<lambda>k. None),
      logs = [], emitted = []\<rparr>"

definition txAA :: string where
  "txAA = ''0xaaaaaaaaaaaaaaaaaaaaaaaaaaaaaaaaaaaaaaaaaaaaaaaaaaaaaaaaaaaaaaaa''"

definition donorA :: string where
  "donorA = ''0xAbCdEf0123456789aBcDeF0123456789AbCdEf01''"

definition settledAA :: donation_received where
  "settledAA =
     \<lparr>l_campaignId = ''1'', l_donor = donorA, l_amount = 1000000000000000000,
      l_message = ''hello'', l_transactionHash = txAA, l_blockNumber = 77,
      l_blockTimestamp = 1700000000\<rparr>"

text \<open>The store after the ledger confirmed \<open>txAA\<close> once, and after the same
  notification was delivered a second time.\<close>

definition world_confirmed_once :: world where
  "world_confirmed_once = onDonationReceived settledAA 1700000001000 ''d1'' world0"

definition world_confirmed_twice :: world where
  "world_confirmed_twice = onDonationReceived settledAA 1700000002000 ''d2'' world_confirmed_once"

text \<open>A campaign that has reached its target and is \<open>COMPLETED\<close>.\<close>

definition world_completed :: world where
  "world_completed =
     world0\<lparr>campaigns := [campaign1\<lparr>currentAmount := 5000000000000000000, donorCount := 3,
                                        c_status := COMPLETED\<rparr>]\<rparr>"

text \<open>
  The stream announces \<open>txAA\<close>; \<open>uuid36\<close> stands for the library's uuid test.
\<close>

definition uuid36 :: "string \<Rightarrow> bool" where
  "uuid36 s = (length s = 36)"

definition fieldsAA :: donation_payload where
  "fieldsAA =
     \<lparr>p_version = ''v1'', p_eventId = ''123e4567-e89b-42d3-a456-426614174000'',
      p_donor = donorA, p_amount = 1000000000000000000, p_message = None,
      p_category = ''water'', p_campaignId = ''c1'', p_campaignOnChainId = ''1'',
      p_txHash = txAA, p_timestamp = 1700000000000, p_blockNumber = None\<rparr>"

definition announcedAA :: raw_sds_event where
  "announcedAA =
     \<lparr>r_id = ''evt-1'', r_type = ''donation'', r_streamId = ''stream-1'',
      r_payload = DonationFields fieldsAA, r_timestamp = 1700000000000\<rparr>"

definition donorA_lower :: string where
  "donorA_lower = ''0xabcdef0123456789abcdef0123456789abcdef01''"

definition world_announced :: world where
  "world_announced = handleEvent uuid36 announcedAA 1700000000000 ''d1'' world0"

text \<open>A store that holds \<open>txAA\<close> as a \<open>PENDING\<close> row.\<close>

definition pendingAA :: donation where
  "pendingAA =
     \<lparr>d_id = ''d1'', txHash = txAA, d_campaignId = ''c1'',
      donorAddress = ''0xabcdef0123456789abcdef0123456789abcdef01'',
      amount = 1000000000000000000, message = None,
      sdsEventId = Some ''123e4567-e89b-42d3-a456-426614174000'',
      sdsReceivedAt = Some 1700000000000, d_status = PENDING, blockNumber = None,
      blockTimestamp = None, confirmedAt = None, createdAt = 1700000000000\<rparr>"

definition world_pending :: world where
  "world_pending = world0\<lparr>donations := [pendingAA]\<rparr>"

text \<open>
  A race on \<open>txAA\<close>: the sweep reads its snapshot, the Ledger Watcher confirms the
  row, the sweep goes on with the snapshot it read.
\<close>

definition ledgerAA :: "string \<Rightarrow> receipt_answer" where
  "ledgerAA h = (if h = txAA then Receipt (Some 1) 77 else NoReceipt)"

definition snapshot_pending :: "donation list" where
  "snapshot_pending = findPendingDonations 1700000400000 world_pending"

definition world_watcher_confirmed :: world where
  "world_watcher_confirmed = onDonationReceived settledAA 1700000400001 ''d2'' world_pending"

definition world_race :: world where
  "world_race = reconcileAll ledgerAA 1700000400002 snapshot_pending world_watcher_confirmed"

text \<open>
  A store with the \<open>PENDING\<close> row of \<open>txAA\<close> and a \<open>CONFIRMED\<close> row of
  another transaction, and a ledger that has no receipt for anything.
\<close>

definition txBB :: string where
  "txBB = ''0xbbbbbbbbbbbbbbbbbbbbbbbbbbbbbbbbbbbbbbbbbbbbbbbbbbbbbbbbbbbbbbbb''"

definition confirmedBB :: donation where
  "confirmedBB =
     \<lparr>d_id = ''d0'', txHash = txBB, d_campaignId = ''c1'',
      donorAddress = ''0xabcdef0123456789abcdef0123456789abcdef01'',
      amount = 2000000000000000000, message = None,
      sdsEventId = None, sdsReceivedAt = None, d_status = CONFIRMED, blockNumber = Some 70,
      blockTimestamp = Some 1699999000000, confirmedAt = Some 1699999001000,
      createdAt = 1699999001000\<rparr>"

definition world_mixed :: world where
  "world_mixed = world0\<lparr>donations := [confirmedBB, pendingAA]\<rparr>"

definition ledger_silent :: "string \<Rightarrow> receipt_answer" where
  "ledger_silent h = NoReceipt"

text \<open>A settlement of \<open>txAA\<close> that names a campaign the store does not know.\<close>

definition settledZZ :: donation_received where
  "settledZZ = settledAA\<lparr>l_campaignId := ''9''\<rparr>"

text \<open>
  Announcements of \<open>txAA\<close> with a small amount and with the amount \<open>2 ^ 53 + 1\<close>, and
  a campaign whose target is \<open>2 ^ 53 + 1\<close> wei.
\<close>

definition announcedSmall :: raw_sds_event where
  "announcedSmall = announcedAA\<lparr>r_payload := DonationFields (fieldsAA\<lparr>p_amount := 5000\<rparr>)\<rparr>"

definition announcedBig :: raw_sds_event where
  "announcedBig =
     announcedAA\<lparr>r_payload := DonationFields (fieldsAA\<lparr>p_amount := 9007199254740993\<rparr>)\<rparr>"

definition world_near_target :: world where
  "world_near_target = world0\<lparr>campaigns := [campaign1\<lparr>targetAmount := 9007199254740993\<rparr>]\<rparr>"







text \<open>
  Three withdrawals of campaign \<open>c1\<close> in \<open>PROCESSING\<close>, each of 100: one to the
  lowercase form of \<open>donorA\<close>, as the admin controller stores it; one whose stored
  recipient kept the mixed case; one to another address.  The ledger reports a withdrawal
  of 100 to \<open>donorA\<close> in mixed case.
\<close>

definition txWW :: string where
  "txWW = ''0xcccccccccccccccccccccccccccccccccccccccccccccccccccccccccccccccc''"

definition withdrawal_lower :: withdrawal where
  "withdrawal_lower =
     \<lparr>w_id = ''w1'', w_campaignId = ''c1'', toAddress = donorA_lower, w_amount = 100,
      w_status = W_PROCESSING, w_txHash = None, w_blockNumber = None, processedAt = None\<rparr>"

definition withdrawal_mixed :: withdrawal where
  "withdrawal_mixed = withdrawal_lower\<lparr>w_id := ''w2'', toAddress := donorA\<rparr>"

definition withdrawal_other :: withdrawal where
  "withdrawal_other =
     withdrawal_lower\<lparr>w_id := ''w3'',
                       toAddress := ''0x1111111111111111111111111111111111111111''\<rparr>"

definition world_withdrawals :: world where
  "world_withdrawals =
     world0\<lparr>withdrawals := [withdrawal_lower, withdrawal_mixed, withdrawal_other]\<rparr>"

section \<open>Rounding to a double is monotone\<close>

lemma expo_div_less: "0 \<le> n \<Longrightarrow> n div 2 ^ expo n < 2 ^ 53"
proof (induction n rule: expo.induct)
  case (1 n)
  show ?case
  proof (cases "n < 2 ^ 53")
    case True
    then show ?thesis by (simp add: expo.simps[of n])
  next
    case False
    have "0 \<le> n div 2" using "1.prems" by simp
    with False "1.IH" have ih: "(n div 2) div 2 ^ expo (n div 2) < 2 ^ 53" by simp
    have "n div 2 ^ expo n = n div (2 * 2 ^ expo (n div 2))" using False by (simp add: expo.simps[of n])
    also have "\<dots> = (n div 2) div 2 ^ expo (n div 2)"
      by (simp add: zdiv_zmult2_eq)
    finally show ?thesis using ih by simp
  qed
qed

lemma expo_div_ge: "2 ^ 53 \<le> n \<Longrightarrow> 2 ^ 52 \<le> n div 2 ^ expo n"
proof (induction n rule: expo.induct)
  case (1 n)
  have nlt: "\<not> n < 2 ^ 53" using "1.prems" by simp
  have eq: "n div 2 ^ expo n = (n div 2) div 2 ^ expo (n div 2)"
  proof -
    have "n div 2 ^ expo n = n div (2 * 2 ^ expo (n div 2))" using nlt by (simp add: expo.simps[of n])
    also have "\<dots> = (n div 2) div 2 ^ expo (n div 2)"
      by (simp add: zdiv_zmult2_eq)
    finally show ?thesis .
  qed
  show ?case
  proof (cases "n div 2 < 2 ^ 53")
    case True
    have "2 ^ 52 \<le> n div 2" using "1.prems" by simp
    then show ?thesis using True eq by (simp add: expo.simps[of "n div 2"])
  next
    case False
    then have "2 ^ 53 \<le> n div 2" by simp
    with nlt "1.IH" show ?thesis using eq by simp
  qed
qed

lemma expo_mono: "m \<le> n \<Longrightarrow> expo m \<le> expo n"
proof (induction n arbitrary: m rule: expo.induct)
  case (1 n)
  show ?case
  proof (cases "m < 2 ^ 53")
    case True
    then show ?thesis by (simp add: expo.simps[of m])
  next
    case False
    then have nlt: "\<not> n < 2 ^ 53" using "1.prems" by simp
    have "m div 2 \<le> n div 2" using "1.prems" by simp
    with nlt "1.IH" have "expo (m div 2) \<le> expo (n div 2)" by simp
    then show ?thesis using False nlt by (simp add: expo.simps[of m] expo.simps[of n])
  qed
qed


lemma roundToEven_lower: "0 \<le> n \<Longrightarrow> (n div 2 ^ expo n) * 2 ^ expo n \<le> roundToEven n"
  by (simp add: roundToEven_def Let_def)

lemma roundToEven_upper: "0 \<le> n \<Longrightarrow> roundToEven n \<le> (n div 2 ^ expo n + 1) * 2 ^ expo n"
  by (simp add: roundToEven_def Let_def)

lemma roundToEven_nonneg: "0 \<le> n \<Longrightarrow> 0 \<le> roundToEven n"
proof -
  assume n: "0 \<le> n"
  have "0 \<le> (n div 2 ^ expo n) * 2 ^ expo n" using n by (simp add: pos_imp_zdiv_nonneg_iff)
  with roundToEven_lower [OF n] show ?thesis by linarith
qed

lemma roundToEven_mono:
  assumes m: "0 \<le> m" and mn: "m \<le> n"
  shows "roundToEven m \<le> roundToEven n"
proof -
  define e where "e = expo m"
  define e' where "e' = expo n"
  define q where "q = m div 2 ^ e"
  define q' where "q' = n div 2 ^ e'"
  have n: "0 \<le> n" using m mn by simp
  have ee: "e \<le> e'" unfolding e_def e'_def by (rule expo_mono [OF mn])
  have lo: "q' * 2 ^ e' \<le> roundToEven n"
    unfolding q'_def e'_def by (rule roundToEven_lower [OF n])
  have up: "roundToEven m \<le> (q + 1) * 2 ^ e"
    unfolding q_def e_def by (rule roundToEven_upper [OF m])
  show ?thesis
  proof (cases "e < e'")
    case True
    have "\<not> n < 2 ^ 53"
    proof
      assume "n < 2 ^ 53"
      then have "expo n = 0" by (simp add: expo.simps[of n])
      with True show False by (simp add: e'_def)
    qed
    then have "2 ^ 52 \<le> q'" unfolding q'_def e'_def by (intro expo_div_ge) simp
    then have a: "(2::int) ^ 52 * 2 ^ e' \<le> q' * 2 ^ e'" by (intro mult_right_mono) simp_all
    have "q < 2 ^ 53" unfolding q_def e_def by (rule expo_div_less [OF m])
    then have "q + 1 \<le> 2 ^ 53" by simp
    then have b: "(q + 1) * 2 ^ e \<le> (2::int) ^ 53 * 2 ^ e" by (intro mult_right_mono) simp_all
    have "53 + e \<le> 52 + e'" using True by simp
    then have "(2::int) ^ (53 + e) \<le> 2 ^ (52 + e')" by (intro power_increasing) simp_all
    then have c: "(2::int) ^ 53 * 2 ^ e \<le> 2 ^ 52 * 2 ^ e'" by (simp only: power_add)
    from up b c a lo show ?thesis by linarith
  next
    case False
    with ee have eq: "e' = e" by simp
    have p: "(0::int) < 2 ^ e" by simp
    have qq: "q \<le> q'" unfolding q_def q'_def eq using mn p by (intro zdiv_mono1)
    show ?thesis
    proof (cases "q < q'")
      case True
      then have "q + 1 \<le> q'" by simp
      then have le: "(q + 1) * 2 ^ e \<le> q' * 2 ^ e" by (intro mult_right_mono) simp_all
      have lo': "q' * 2 ^ e \<le> roundToEven n" using lo eq by simp
      from up le lo' show ?thesis by linarith
    next
      case False
      with qq have qeq: "q' = q" by simp
      have dm: "m = q * 2 ^ e + m mod 2 ^ e"
        unfolding q_def using div_mult_mod_eq [of m "2 ^ e"] by linarith
      have "n = q' * 2 ^ e' + n mod 2 ^ e'"
        unfolding q'_def using div_mult_mod_eq [of n "2 ^ e'"] by linarith
      then have dn: "n = q * 2 ^ e + n mod 2 ^ e" using qeq eq by simp
      have r: "m mod 2 ^ e \<le> n mod 2 ^ e" using dm dn mn by linarith
      have em: "expo m = e" by (simp add: e_def)
      have en: "expo n = e" using eq by (simp add: e'_def)
      have qm: "m div 2 ^ e = q" by (simp add: q_def)
      have qn: "n div 2 ^ e = q" using qeq eq by (simp add: q'_def)
      show ?thesis
        unfolding roundToEven_def Let_def em en qm qn
        using r p by auto
    qed
  qed
qed

lemma toDouble_mono: "m \<le> n \<Longrightarrow> toDouble m \<le> toDouble n"
proof -
  assume mn: "m \<le> n"
  consider "0 \<le> m" | "m < 0" "0 \<le> n" | "n < 0" using mn by linarith
  then show ?thesis
  proof cases
    case 1
    then show ?thesis using mn roundToEven_mono [OF 1 mn] by (simp add: toDouble_def)
  next
    case 2
    have "0 \<le> roundToEven (- m)" using 2 by (intro roundToEven_nonneg) simp
    moreover have "0 \<le> roundToEven n" using 2 by (intro roundToEven_nonneg)
    ultimately show ?thesis using 2 by (simp add: toDouble_def)
  next
    case 3
    have "roundToEven (- n) \<le> roundToEven (- m)" using 3 mn by (intro roundToEven_mono) simp_all
    then show ?thesis using 3 mn by (simp add: toDouble_def)
  qed
qed

section \<open>Ledger Watcher: a confirmation delivered twice\<close>

text \<open>
  C1.  A donation-settled notification for a transaction whose Donation row is already
  \<open>CONFIRMED\<close> should change nothing.  In the code the row is looked up by hash alone and
  the totals are raised again: after the second delivery of the same notification the campaign
  holds twice the amount and two donors, for one Donation row.
\<close>

theorem duplicate_confirmation_counted_twice:
  "map d_status (donations world_confirmed_once) = [CONFIRMED]
   \<and> map currentAmount (campaigns world_confirmed_once) = [1000000000000000000]
   \<and> map donorCount (campaigns world_confirmed_once) = [1]
   \<and> map d_status (donations world_confirmed_twice) = [CONFIRMED]
   \<and> map currentAmount (campaigns world_confirmed_twice) = [2000000000000000000]
   \<and> map donorCount (campaigns world_confirmed_twice) = [2]"
  by (simp add: world_confirmed_twice_def world_confirmed_once_def onDonationReceived_def
      processDonationConfirmation_def updateCampaignTotals_def donation_findUnique_def
      campaign_findUnique_onChainId_def campaign_findUnique_id_def donation_create_def
      donation_update_def campaign_modify_def redis_publish_def redis_del_def
      redis_delPattern_def logMsg_def andThen_def world0_def campaign1_def settledAA_def
      txAA_def Number_def toDouble_def roundToEven_def expo.simps Let_def)

section \<open>What each store and broker call leaves alone\<close>

lemma logMsg_fields [simp]:
  "donations (logMsg l m w) = donations w"
  "campaigns (logMsg l m w) = campaigns w"
  "donors (logMsg l m w) = donors w"
  "withdrawals (logMsg l m w) = withdrawals w"
  "published (logMsg l m w) = published w"
  "feeds (logMsg l m w) = feeds w"
  "leaderboards (logMsg l m w) = leaderboards w"
  "logs (logMsg l m w) = logs w @ [(l, m)]"
  by (simp_all add: logMsg_def)

lemma redis_publish_fields [simp]:
  "donations (redis_publish ch e w) = donations w"
  "campaigns (redis_publish ch e w) = campaigns w"
  "donors (redis_publish ch e w) = donors w"
  "withdrawals (redis_publish ch e w) = withdrawals w"
  "published (redis_publish ch e w) = published w @ [(ch, e)]"
  "feeds (redis_publish ch e w) = feeds w"
  "leaderboards (redis_publish ch e w) = leaderboards w"
  "logs (redis_publish ch e w) = logs w"
  by (simp_all add: redis_publish_def)

lemma redis_del_fields [simp]:
  "donations (redis_del k w) = donations w"
  "campaigns (redis_del k w) = campaigns w"
  "donors (redis_del k w) = donors w"
  "withdrawals (redis_del k w) = withdrawals w"
  "published (redis_del k w) = published w"
  "feeds (redis_del k w) = feeds w"
  "leaderboards (redis_del k w) = leaderboards w"
  "logs (redis_del k w) = logs w"
  by (simp_all add: redis_del_def)

lemma redis_delPattern_fields [simp]:
  "donations (redis_delPattern p w) = donations w"
  "campaigns (redis_delPattern p w) = campaigns w"
  "donors (redis_delPattern p w) = donors w"
  "withdrawals (redis_delPattern p w) = withdrawals w"
  "published (redis_delPattern p w) = published w"
  "feeds (redis_delPattern p w) = feeds w"
  "leaderboards (redis_delPattern p w) = leaderboards w"
  "logs (redis_delPattern p w) = logs w"
  by (simp_all add: redis_delPattern_def)

lemma campaign_modify_fields [simp]:
  "donations (campaign_modify i g w) = donations w"
  "campaigns (campaign_modify i g w) = map (\<lambda>c. if c_id c = i then g c else c) (campaigns w)"
  "donors (campaign_modify i g w) = donors w"
  "withdrawals (campaign_modify i g w) = withdrawals w"
  "published (campaign_modify i g w) = published w"
  "feeds (campaign_modify i g w) = feeds w"
  "leaderboards (campaign_modify i g w) = leaderboards w"
  "logs (campaign_modify i g w) = logs w"
  by (simp_all add: campaign_modify_def)

section \<open>Aggregate Updater\<close>

lemma find_map_c_id:
  "(\<And>c. c_id (g c) = c_id c) \<Longrightarrow>
   find (\<lambda>c. c_id c = i) (map (\<lambda>c. if c_id c = i then g c else c) cs)
     = map_option g (find (\<lambda>c. c_id c = i) cs)"
  by (induction cs) auto

lemma campaign_findUnique_id_frame [simp]:
  "campaign_findUnique_id i (logMsg l m w) = campaign_findUnique_id i w"
  "campaign_findUnique_id i (redis_publish ch e w) = campaign_findUnique_id i w"
  "campaign_findUnique_id i (redis_del k w) = campaign_findUnique_id i w"
  "campaign_findUnique_id i (redis_delPattern p w) = campaign_findUnique_id i w"
  by (simp_all add: campaign_findUnique_id_def)

lemma campaign_findUnique_id_modify:
  "(\<And>c. c_id (g c) = c_id c) \<Longrightarrow>
   campaign_findUnique_id i (campaign_modify i g w) = map_option g (campaign_findUnique_id i w)"
  by (simp add: campaign_findUnique_id_def find_map_c_id)

lemma updateCampaignTotals_found:
  assumes "campaign_findUnique_id cid w = Some c"
  shows "updateCampaignTotals cid a w =
     Done ((if Number (targetAmount c) \<le> Number (currentAmount c + a)
            then logMsg Info ''Campaign reached target, marked as completed''
                   (campaign_modify cid (\<lambda>c. c\<lparr>c_status := COMPLETED\<rparr>)
             (redis_delPattern ''campaigns:''
             (redis_del (CacheKeys_campaign cid)
               (redis_publish ''campaign_updates''
                  (RealtimeCampaignUpdate cid (currentAmount c + a) (donorCount c + 1))
                  (campaign_modify cid
                     (\<lambda>c. c\<lparr>currentAmount := currentAmount c + a,
                             donorCount := donorCount c + 1\<rparr>) w)))))
            else 
           (redis_delPattern ''campaigns:''
             (redis_del (CacheKeys_campaign cid)
               (redis_publish ''campaign_updates''
                  (RealtimeCampaignUpdate cid (currentAmount c + a) (donorCount c + 1))
                  (campaign_modify cid
                     (\<lambda>c. c\<lparr>currentAmount := currentAmount c + a,
                             donorCount := donorCount c + 1\<rparr>) w))))))"
  using assms by (simp add: updateCampaignTotals_def Let_def)

lemma updateCampaignTotals_missing:
  "campaign_findUnique_id cid w = None \<Longrightarrow> updateCampaignTotals cid a w = Threw ''P2025'' w"
  by (simp add: updateCampaignTotals_def)

text \<open>
  C2 (as amended).  Whenever the updated running total reaches the target,
  \<open>updateCampaignTotals\<close> sets the status to \<open>COMPLETED\<close>, and it does so
  without looking at the status the campaign has.  On a campaign that is already
  \<open>COMPLETED\<close> the total and the donor count still grow and the status stays, but the
  completion write and its log entry run again on every call that finds the total at or above
  the target.  (The test compares the totals as doubles; a total at or above the target always
  passes it.)
\<close>

theorem updateCampaignTotals_completion:
  assumes "campaign_findUnique_id cid w = Some c"
  shows "\<exists>w' c'. updateCampaignTotals cid a w = Done w'
           \<and> campaign_findUnique_id cid w' = Some c'
           \<and> currentAmount c' = currentAmount c + a
           \<and> donorCount c' = donorCount c + 1
           \<and> c_status c' = (if Number (targetAmount c) \<le> Number (currentAmount c + a)
                             then COMPLETED else c_status c)
           \<and> (targetAmount c \<le> currentAmount c + a \<longrightarrow> c_status c' = COMPLETED)
           \<and> logs w' = logs w @
                 (if Number (targetAmount c) \<le> Number (currentAmount c + a)
                  then [(Info, ''Campaign reached target, marked as completed'')] else [])"
proof -
  have mono: "targetAmount c \<le> currentAmount c + a \<Longrightarrow>
              Number (targetAmount c) \<le> Number (currentAmount c + a)"
    by (simp add: Number_def toDouble_mono)
  show ?thesis
    using mono assms
    by (auto simp add: updateCampaignTotals_found [OF assms] campaign_findUnique_id_modify)
qed

text \<open>The amended C2 on a campaign that is already \<open>COMPLETED\<close>.\<close>

theorem updateCampaignTotals_completion_witness:
  "campaign_findUnique_id ''c1'' world_completed
     = Some (campaign1\<lparr>currentAmount := 5000000000000000000, donorCount := 3,
                        c_status := COMPLETED\<rparr>)
   \<and> (\<exists>w' c'. updateCampaignTotals ''c1'' 1000000000000000000 world_completed = Done w'
           \<and> campaign_findUnique_id ''c1'' w' = Some c'
           \<and> currentAmount c' = 6000000000000000000
           \<and> donorCount c' = 4
           \<and> c_status c' = COMPLETED
           \<and> logs w' = [(Info, ''Campaign reached target, marked as completed'')])"
proof -
  have h: "campaign_findUnique_id ''c1'' world_completed
     = Some (campaign1\<lparr>currentAmount := 5000000000000000000, donorCount := 3,
                        c_status := COMPLETED\<rparr>)"
    by (simp add: campaign_findUnique_id_def world_completed_def world0_def campaign1_def)
  have l: "logs world_completed = []"
    by (simp add: world_completed_def world0_def)
  have n: "Number 5000000000000000000 \<le> Number 6000000000000000000"
    by (simp add: Number_def toDouble_def roundToEven_def expo.simps Let_def)
  show ?thesis
    using h l n updateCampaignTotals_completion [OF h, of 1000000000000000000]
    by (simp add: campaign1_def)
qed

text \<open>
  C2 as stated fails: a donation confirmed on a campaign that is already
  \<open>COMPLETED\<close> runs the completion branch again and leaves its log entry.
\<close>

theorem completion_fires_again_counterexample:
  "map c_status (campaigns world_completed) = [COMPLETED]
   \<and> logs world_completed = []
   \<and> logs (world_of (updateCampaignTotals ''c1'' 1000000000000000000 world_completed))
       = [(Info, ''Campaign reached target, marked as completed'')]"
  by (simp add: updateCampaignTotals_def campaign_findUnique_id_def campaign_modify_def
      redis_publish_def redis_del_def redis_delPattern_def logMsg_def world_completed_def
      world0_def campaign1_def Number_def toDouble_def roundToEven_def expo.simps Let_def)

section \<open>Reconciler and Ledger Watcher on one transaction\<close>

text \<open>
  C3.  The sweep selects \<open>PENDING\<close> rows but writes \<open>CONFIRMED\<close> by row id with no
  condition on the status.  When the Ledger Watcher confirms the row after the sweep has read
  it, the sweep confirms it again and raises the totals a second time: one
  \<open>CONFIRMED\<close> row, two increments.
\<close>

theorem reconciler_race_counted_twice:
  "map d_status snapshot_pending = [PENDING]
   \<and> map d_status (donations world_watcher_confirmed) = [CONFIRMED]
   \<and> map currentAmount (campaigns world_watcher_confirmed) = [1000000000000000000]
   \<and> map d_status (donations world_race) = [CONFIRMED]
   \<and> map currentAmount (campaigns world_race) = [2000000000000000000]
   \<and> map donorCount (campaigns world_race) = [2]"
  by (simp add: world_race_def world_watcher_confirmed_def snapshot_pending_def ledgerAA_def
      world_pending_def pendingAA_def
      reconcileDonation_def BigInt_toString_def findPendingDonations_def orphanTimeoutMs_def
      onDonationReceived_def
      processDonationConfirmation_def updateCampaignTotals_def donation_findUnique_def
      campaign_findUnique_onChainId_def campaign_findUnique_id_def donation_create_def
      donation_update_def campaign_modify_def redis_publish_def redis_del_def
      redis_delPattern_def logMsg_def andThen_def world0_def campaign1_def settledAA_def
      txAA_def Number_def toDouble_def roundToEven_def expo.simps Let_def)

section \<open>Reconciler\<close>

lemma updateCampaignTotals_frame:
  "donations (world_of (updateCampaignTotals cid a w)) = donations w"
  "donors (world_of (updateCampaignTotals cid a w)) = donors w"
  "withdrawals (world_of (updateCampaignTotals cid a w)) = withdrawals w"
  "feeds (world_of (updateCampaignTotals cid a w)) = feeds w"
  "leaderboards (world_of (updateCampaignTotals cid a w)) = leaderboards w"
  by (simp_all add: updateCampaignTotals_def Let_def split: option.splits)

lemma andThen_simps [simp]:
  "andThen (Done w) k = k w"
  "andThen (Threw e w) k = Threw e w"
  by (simp_all add: andThen_def)

lemma caught_fields:
  "donations (case andThen r (\<lambda>w'. Done (logMsg l m w')) of
                Done w' \<Rightarrow> w' | Threw e w' \<Rightarrow> logMsg l' m' w') = donations (world_of r)"
  "campaigns (case andThen r (\<lambda>w'. Done (logMsg l m w')) of
                Done w' \<Rightarrow> w' | Threw e w' \<Rightarrow> logMsg l' m' w') = campaigns (world_of r)"
  "donors (case andThen r (\<lambda>w'. Done (logMsg l m w')) of
                Done w' \<Rightarrow> w' | Threw e w' \<Rightarrow> logMsg l' m' w') = donors (world_of r)"
  by (cases r; simp)+

lemma map_other_ids:
  "\<forall>x \<in> set xs. d_id x \<noteq> i \<Longrightarrow> map (\<lambda>x. if d_id x = i then g x else x) xs = xs"
  by (induction xs) auto

lemma donation_update_donations:
  "donations (world_of (donation_update i f w))
     = map (\<lambda>x. if d_id x = i then f x else x) (donations w)"
  by (auto simp add: donation_update_def map_other_ids)

lemma donation_update_frame:
  "campaigns (world_of (donation_update i f w)) = campaigns w"
  "donors (world_of (donation_update i f w)) = donors w"
  by (simp_all add: donation_update_def)

lemma reconcileDonation_donations:
  "donations (reconcileDonation provider now p w)
     = map (\<lambda>x. if d_id x = d_id p
                 then (case provider (txHash p) of
                         NoReceipt \<Rightarrow> x\<lparr>d_status := ORPHANED\<rparr>
                       | Receipt st b \<Rightarrow>
                           if st = Some 1
                           then x\<lparr>d_status := CONFIRMED, blockNumber := Some b,
                                  confirmedAt := Some now\<rparr>
                           else x\<lparr>d_status := FAILED\<rparr>
                       | RpcFailure \<Rightarrow> x)
                 else x) (donations w)"
proof (cases "provider (txHash p)")
  case NoReceipt
  then show ?thesis
    by (simp add: reconcileDonation_def caught_fields donation_update_donations cong: if_cong)
next
  case RpcFailure
  then show ?thesis
    by (simp add: reconcileDonation_def cong: if_cong)
next
  case (Receipt st b)
  show ?thesis
  proof (cases "st = Some 1")
    case False
    with Receipt show ?thesis
      by (simp add: reconcileDonation_def caught_fields donation_update_donations cong: if_cong)
  next
    case True
    define upd where "upd = donation_update (d_id p)
        (\<lambda>x. x\<lparr>d_status := CONFIRMED, blockNumber := Some b, confirmedAt := Some now\<rparr>) w"
    have "donations (world_of (andThen upd
              (\<lambda>w'. case BigInt_toString (amount p) of
                       None \<Rightarrow> Threw ''SyntaxError'' w'
                     | Some a \<Rightarrow> updateCampaignTotals (d_campaignId p) a w')))
            = donations (world_of upd)"
      by (cases upd) (simp_all add: updateCampaignTotals_frame split: option.splits)
    with True Receipt show ?thesis
      by (simp add: reconcileDonation_def caught_fields upd_def donation_update_donations
          cong: if_cong)
  qed
qed

lemma reconcileDonation_keeps_other:
  assumes "x \<in> set (donations w)" and "d_id p \<noteq> d_id x"
  shows "x \<in> set (donations (reconcileDonation provider now p w))"
proof -
  have "x \<in> (\<lambda>y. if d_id y = d_id p
                 then (case provider (txHash p) of
                         NoReceipt \<Rightarrow> y\<lparr>d_status := ORPHANED\<rparr>
                       | Receipt st b \<Rightarrow>
                           if st = Some 1
                           then y\<lparr>d_status := CONFIRMED, blockNumber := Some b,
                                  confirmedAt := Some now\<rparr>
                           else y\<lparr>d_status := FAILED\<rparr>
                       | RpcFailure \<Rightarrow> y)
                 else y) ` set (donations w)"
    using assms by (intro image_eqI [where x = x]) simp_all
  then show ?thesis by (simp add: reconcileDonation_donations)
qed

lemma reconcileAll_keeps_other:
  "x \<in> set (donations w) \<Longrightarrow> \<forall>p \<in> set ps. d_id p \<noteq> d_id x \<Longrightarrow>
   x \<in> set (donations (reconcileAll provider now ps w))"
  by (induction ps arbitrary: w) (simp_all add: reconcileDonation_keeps_other)

lemma reconcileAll_append:
  "reconcileAll provider now (ps @ qs) w
     = reconcileAll provider now qs (reconcileAll provider now ps w)"
  by (induction ps arbitrary: w) simp_all

lemma reconcileDonation_orphans:
  assumes "d \<in> set (donations w)" and "provider (txHash d) = NoReceipt"
  shows "reconcileDonation provider now d w =
           logMsg Warn ''Donation marked as orphaned - no on-chain record''
             (w\<lparr>donations := map (\<lambda>x. if d_id x = d_id d then x\<lparr>d_status := ORPHANED\<rparr> else x)
                                  (donations w)\<rparr>)"
proof -
  have "\<exists>x \<in> set (donations w). d_id x = d_id d" using assms(1) by blast
  then show ?thesis using assms(2) by (simp add: reconcileDonation_def donation_update_def)
qed

lemma reconcileAll_orphans:
  assumes dist: "distinct (map d_id ps)" and mem: "d \<in> set ps"
    and sub: "d \<in> set (donations w)" and nr: "provider (txHash d) = NoReceipt"
  shows "d\<lparr>d_status := ORPHANED\<rparr> \<in> set (donations (reconcileAll provider now ps w))"
proof -
  from mem obtain ps1 ps2 where ps: "ps = ps1 @ d # ps2" by (meson split_list)
  have "d_id d \<notin> d_id ` set ps1" and "d_id d \<notin> d_id ` set ps2" using dist ps by auto
  then have o1: "\<forall>p \<in> set ps1. d_id p \<noteq> d_id d"
    and o2: "\<forall>p \<in> set ps2. d_id p \<noteq> d_id (d\<lparr>d_status := ORPHANED\<rparr>)"
    by (metis imageI, simp, metis imageI)
  define w1 where "w1 = reconcileAll provider now ps1 w"
  have d1: "d \<in> set (donations w1)"
    unfolding w1_def by (rule reconcileAll_keeps_other [OF sub o1])
  have "d\<lparr>d_status := ORPHANED\<rparr> \<in> set (donations (reconcileDonation provider now d w1))"
    using d1 nr by (force simp add: reconcileDonation_orphans)
  then have "d\<lparr>d_status := ORPHANED\<rparr>
       \<in> set (donations (reconcileAll provider now ps2 (reconcileDonation provider now d w1)))"
    by (rule reconcileAll_keeps_other [OF _ o2])
  then show ?thesis by (simp add: ps reconcileAll_append w1_def)
qed

lemma reconcileDonation_donors: "donors (reconcileDonation provider now p w) = donors w"
  by (auto simp add: reconcileDonation_def donation_update_def andThen_def
      updateCampaignTotals_def BigInt_toString_def Let_def simp del: andThen_simps
      split: receipt_answer.splits outcome.splits option.splits)

lemma reconcileAll_donors: "donors (reconcileAll provider now ps w) = donors w"
  by (induction ps arbitrary: w) (simp_all add: reconcileDonation_donors)

lemma pending_rows_distinct:
  "distinct (map d_id (donations w)) \<Longrightarrow> distinct (map d_id (findPendingDonations now w))"
  by (simp add: findPendingDonations_def distinct_map_filter)

text \<open>
  C7.  A row the sweep selected (\<open>PENDING\<close>, older than the orphan timeout) for which the
  ledger has no receipt becomes \<open>ORPHANED\<close>; that step changes no campaign and no donor,
  and the row is \<open>ORPHANED\<close> when the sweep ends.  A sweep selects \<open>PENDING\<close> rows
  only, so an \<open>ORPHANED\<close>, \<open>FAILED\<close> or \<open>CONFIRMED\<close> row is in no later selection,
  and a sweep leaves such a row as it is.  (Row ids are the primary key.)
\<close>

theorem orphan_handling:
  assumes dist: "distinct (map d_id (donations w))"
    and sel: "d \<in> set (findPendingDonations now w)"
    and nr: "provider (txHash d) = NoReceipt"
  shows "donations (reconcileDonation provider now d w)
           = map (\<lambda>x. if d_id x = d_id d then x\<lparr>d_status := ORPHANED\<rparr> else x) (donations w)
       \<and> campaigns (reconcileDonation provider now d w) = campaigns w
       \<and> donors (reconcileDonation provider now d w) = donors w
       \<and> d\<lparr>d_status := ORPHANED\<rparr> \<in> set (donations (runReconciliation provider now w))
       \<and> donors (runReconciliation provider now w) = donors w
       \<and> (\<forall>now' w' x. x \<in> set (findPendingDonations now' w') \<longrightarrow> d_status x = PENDING)
       \<and> (\<forall>x \<in> set (donations w). d_status x \<noteq> PENDING \<longrightarrow>
             x \<in> set (donations (runReconciliation provider now w)))"
proof -
  have dw: "d \<in> set (donations w)" using sel by (simp add: findPendingDonations_def)
  have a: "donations (reconcileDonation provider now d w)
           = map (\<lambda>x. if d_id x = d_id d then x\<lparr>d_status := ORPHANED\<rparr> else x) (donations w)"
    using dw nr by (simp add: reconcileDonation_orphans)
  have b: "campaigns (reconcileDonation provider now d w) = campaigns w"
    using dw nr by (simp add: reconcileDonation_orphans)
  define w1 where "w1 = logMsg Info ''Starting reconciliation run...'' w"
  have run: "donations (runReconciliation provider now w)
      = donations (reconcileAll provider now (findPendingDonations now w) w1)"
    by (simp add: runReconciliation_def Let_def w1_def findPendingDonations_def)
  have dw1: "donations w1 = donations w" by (simp add: w1_def)
  have c: "d\<lparr>d_status := ORPHANED\<rparr> \<in> set (donations (runReconciliation provider now w))"
    unfolding run
    by (rule reconcileAll_orphans [where provider = provider and d = d,
          OF pending_rows_distinct [OF dist] sel _ nr])
       (simp add: dw1 dw)
  have e: "donors (runReconciliation provider now w) = donors w"
    by (simp add: runReconciliation_def Let_def reconcileAll_donors)
  have f: "\<forall>now' w' x. x \<in> set (findPendingDonations now' w') \<longrightarrow> d_status x = PENDING"
    by (simp add: findPendingDonations_def)
  have g: "\<forall>x \<in> set (donations w). d_status x \<noteq> PENDING \<longrightarrow>
             x \<in> set (donations (runReconciliation provider now w))"
  proof (intro ballI impI)
    fix x assume x: "x \<in> set (donations w)" and np: "d_status x \<noteq> PENDING"
    have "\<forall>p \<in> set (findPendingDonations now w). d_id p \<noteq> d_id x"
    proof
      fix p assume p: "p \<in> set (findPendingDonations now w)"
      then have pw: "p \<in> set (donations w)" and ps: "d_status p = PENDING"
        by (simp_all add: findPendingDonations_def)
      show "d_id p \<noteq> d_id x"
      proof
        assume "d_id p = d_id x"
        with dist pw x have "p = x" by (meson distinct_map inj_onD)
        with ps np show False by simp
      qed
    qed
    then show "x \<in> set (donations (runReconciliation provider now w))"
      unfolding run using x dw1 by (intro reconcileAll_keeps_other) simp_all
  qed
  from a b reconcileDonation_donors c e f g show ?thesis by blast
qed

text \<open>C7 on a store with one row to orphan and one row that is already settled.\<close>

theorem orphan_handling_witness:
  "distinct (map d_id (donations world_mixed))
   \<and> pendingAA \<in> set (findPendingDonations 1700000400000 world_mixed)
   \<and> ledger_silent (txHash pendingAA) = NoReceipt
   \<and> campaigns (reconcileDonation ledger_silent 1700000400000 pendingAA world_mixed)
       = campaigns world_mixed
   \<and> donors (reconcileDonation ledger_silent 1700000400000 pendingAA world_mixed)
       = donors world_mixed
   \<and> pendingAA\<lparr>d_status := ORPHANED\<rparr>
       \<in> set (donations (runReconciliation ledger_silent 1700000400000 world_mixed))
   \<and> pendingAA\<lparr>d_status := ORPHANED\<rparr>
       \<notin> set (findPendingDonations 1700000800000
                (runReconciliation ledger_silent 1700000400000 world_mixed))
   \<and> d_status confirmedBB \<noteq> PENDING
   \<and> confirmedBB \<in> set (donations (runReconciliation ledger_silent 1700000400000 world_mixed))"
proof -
  have h1: "distinct (map d_id (donations world_mixed))"
    by (simp add: world_mixed_def world0_def confirmedBB_def pendingAA_def)
  have h2: "pendingAA \<in> set (findPendingDonations 1700000400000 world_mixed)"
    by (simp add: findPendingDonations_def orphanTimeoutMs_def world_mixed_def world0_def
        confirmedBB_def pendingAA_def)
  have h3: "ledger_silent (txHash pendingAA) = NoReceipt"
    by (simp add: ledger_silent_def)
  have c: "d_status confirmedBB \<noteq> PENDING" "confirmedBB \<in> set (donations world_mixed)"
    by (simp_all add: confirmedBB_def world_mixed_def world0_def)
  have o: "d_status (pendingAA\<lparr>d_status := ORPHANED\<rparr>) \<noteq> PENDING" by simp
  note t = orphan_handling [where provider = ledger_silent, OF h1 h2 h3]
  from t c o h1 h2 h3 show ?thesis by blast
qed

section \<open>Stream Listener: an announcement for a known transaction\<close>

lemma donation_findUnique_sdsEvents [simp]:
  "donation_findUnique h (w\<lparr>sdsEvents := es\<rparr>) = donation_findUnique h w"
  by (simp add: donation_findUnique_def)

lemma handleDonationEvent_duplicate:
  assumes "DonationEventSchema_safeParse isUuid (r_payload event) = Some donation"
    and "donation_findUnique (p_txHash donation) w = Some existing"
  shows "handleDonationEvent isUuid event now newId w
           = Done (logMsg Debug ''Duplicate donation event, skipping'' w)"
  using assms by (simp add: handleDonationEvent_def)

text \<open>
  C8.  A donation announcement that passes the schema and whose transaction hash already has
  a Donation row is dropped: \<open>handleDonationEvent\<close> returns with one debug log entry and
  nothing else.  Through \<open>handleEvent\<close>, which records the raw event around it, the
  donations, the donors, the leaderboards, the recent feeds, the broadcast channel and the
  emitted events are as before.
\<close>

theorem duplicate_announcement_dropped:
  assumes "DonationEventSchema_safeParse isUuid (r_payload event) = Some donation"
    and "donation_findUnique (p_txHash donation) w = Some existing"
  shows "handleDonationEvent isUuid event now newId w
           = Done (logMsg Debug ''Duplicate donation event, skipping'' w)
       \<and> donations (handleEvent isUuid event now newId w) = donations w
       \<and> donors (handleEvent isUuid event now newId w) = donors w
       \<and> leaderboards (handleEvent isUuid event now newId w) = leaderboards w
       \<and> feeds (handleEvent isUuid event now newId w) = feeds w
       \<and> published (handleEvent isUuid event now newId w) = published w
       \<and> emitted (handleEvent isUuid event now newId w) = emitted w
       \<and> campaigns (handleEvent isUuid event now newId w) = campaigns w"
proof -
  have dup: "\<And>es. handleDonationEvent isUuid event now newId (w\<lparr>sdsEvents := es\<rparr>)
           = Done (logMsg Debug ''Duplicate donation event, skipping'' (w\<lparr>sdsEvents := es\<rparr>))"
    using assms by (intro handleDonationEvent_duplicate) simp_all
  show ?thesis
    using handleDonationEvent_duplicate [OF assms]
    by (simp add: handleEvent_def sdsEvent_create_def sdsEvent_update_def dup logMsg_def
        Let_def)
qed

text \<open>C8 on the store that already holds \<open>txAA\<close>.\<close>

theorem duplicate_announcement_dropped_witness:
  "DonationEventSchema_safeParse uuid36 (r_payload announcedAA) = Some fieldsAA
   \<and> donation_findUnique (p_txHash fieldsAA) world_pending = Some pendingAA
   \<and> handleDonationEvent uuid36 announcedAA 1700000005000 ''d9'' world_pending
       = Done (logMsg Debug ''Duplicate donation event, skipping'' world_pending)
   \<and> donations (handleEvent uuid36 announcedAA 1700000005000 ''d9'' world_pending) = [pendingAA]
   \<and> donors (handleEvent uuid36 announcedAA 1700000005000 ''d9'' world_pending) = []
   \<and> published (handleEvent uuid36 announcedAA 1700000005000 ''d9'' world_pending) = []"
proof -
  have a: "isAddress donorA" by (simp add: isAddress_def isHex_def donorA_def)
  have b: "isTxHash txAA" by (simp add: isTxHash_def isHex_def txAA_def)
  have h1: "DonationEventSchema_safeParse uuid36 (r_payload announcedAA) = Some fieldsAA"
    using a b
    by (simp add: DonationEventSchema_safeParse_def announcedAA_def fieldsAA_def uuid36_def)
  have h2: "donation_findUnique (p_txHash fieldsAA) world_pending = Some pendingAA"
    by (simp add: donation_findUnique_def world_pending_def world0_def pendingAA_def
        fieldsAA_def)
  have f: "donations world_pending = [pendingAA]" "donors world_pending = []"
    "published world_pending = []"
    by (simp_all add: world_pending_def world0_def)
  note t = duplicate_announcement_dropped [OF h1 h2, of 1700000005000 "''d9''"]
  from t h1 h2 f show ?thesis by simp
qed

section \<open>Stream Listener: what a socket message can reach\<close>

text \<open>
  A message reaches \<open>handleEvent\<close> only when its \<open>type\<close> is \<open>'event'\<close>, and
  \<open>handleEvent\<close> calls the donation handler only when that same \<open>type\<close> is
  \<open>'donation'\<close>: through \<open>handleMessage\<close> no donation, donor or leaderboard entry
  is written.
\<close>

lemma handleMessage_writes_no_donation:
  "donations (snd (handleMessage isUuid data now newId (st, w))) = donations w
   \<and> donors (snd (handleMessage isUuid data now newId (st, w))) = donors w
   \<and> leaderboards (snd (handleMessage isUuid data now newId (st, w))) = leaderboards w
   \<and> published (snd (handleMessage isUuid data now newId (st, w))) = published w"
  by (cases data)
     (simp_all add: handleMessage_def handleEvent_def sdsEvent_create_def sdsEvent_update_def
       logMsg_def Let_def)

section \<open>Donor addresses are used in lowercase\<close>

lemma lowerChar_idem: "lowerChar (lowerChar c) = lowerChar c"
proof -
  have "c \<in> set ''ABCDEFGHIJKLMNOPQRSTUVWXYZ'' \<or> c \<notin> set ''ABCDEFGHIJKLMNOPQRSTUVWXYZ''"
    by blast
  then show ?thesis
  proof
    assume "c \<in> set ''ABCDEFGHIJKLMNOPQRSTUVWXYZ''"
    then show ?thesis by (auto simp add: lowerChar_def)
  next
    assume n: "c \<notin> set ''ABCDEFGHIJKLMNOPQRSTUVWXYZ''"
    then have "lowerChar c = c" by (auto simp add: lowerChar_def)
    then show ?thesis by simp
  qed
qed

lemma toLowerCase_idem: "toLowerCase (toLowerCase s) = toLowerCase s"
  by (simp add: toLowerCase_def lowerChar_idem)

lemma handleDonationEvent_donor_case:
  assumes "toLowerCase a = toLowerCase b" and "isAddress a = isAddress b"
  shows "donations (world_of (handleDonationEvent isUuid
            (e\<lparr>r_payload := DonationFields (f\<lparr>p_donor := a\<rparr>)\<rparr>) now nid w))
       = donations (world_of (handleDonationEvent isUuid
            (e\<lparr>r_payload := DonationFields (f\<lparr>p_donor := b\<rparr>)\<rparr>) now nid w))"
    and "donors (world_of (handleDonationEvent isUuid
            (e\<lparr>r_payload := DonationFields (f\<lparr>p_donor := a\<rparr>)\<rparr>) now nid w))
       = donors (world_of (handleDonationEvent isUuid
            (e\<lparr>r_payload := DonationFields (f\<lparr>p_donor := b\<rparr>)\<rparr>) now nid w))"
    and "leaderboards (world_of (handleDonationEvent isUuid
            (e\<lparr>r_payload := DonationFields (f\<lparr>p_donor := a\<rparr>)\<rparr>) now nid w))
       = leaderboards (world_of (handleDonationEvent isUuid
            (e\<lparr>r_payload := DonationFields (f\<lparr>p_donor := b\<rparr>)\<rparr>) now nid w))"
  using assms
  by (simp_all add: handleDonationEvent_def DonationEventSchema_safeParse_def
      donation_create_def donor_upsert_def pushToFeed_def incrementLeaderboard_def
      redis_publish_def logMsg_def Let_def
      split: option.splits)


lemma pushToFeed_fields [simp]:
  "donations (pushToFeed k e w) = donations w"
  "campaigns (pushToFeed k e w) = campaigns w"
  "donors (pushToFeed k e w) = donors w"
  "withdrawals (pushToFeed k e w) = withdrawals w"
  "published (pushToFeed k e w) = published w"
  "leaderboards (pushToFeed k e w) = leaderboards w"
  "logs (pushToFeed k e w) = logs w"
  by (simp_all add: pushToFeed_def)

lemma incrementLeaderboard_fields [simp]:
  "donations (incrementLeaderboard k m i w) = donations w"
  "campaigns (incrementLeaderboard k m i w) = campaigns w"
  "donors (incrementLeaderboard k m i w) = donors w"
  "withdrawals (incrementLeaderboard k m i w) = withdrawals w"
  "published (incrementLeaderboard k m i w) = published w"
  "feeds (incrementLeaderboard k m i w) = feeds w"
  "logs (incrementLeaderboard k m i w) = logs w"
  by (simp_all add: incrementLeaderboard_def)

lemma donor_upsert_fields [simp]:
  "donations (donor_upsert addr amt now w) = donations w"
  "campaigns (donor_upsert addr amt now w) = campaigns w"
  "withdrawals (donor_upsert addr amt now w) = withdrawals w"
  "published (donor_upsert addr amt now w) = published w"
  "feeds (donor_upsert addr amt now w) = feeds w"
  "leaderboards (donor_upsert addr amt now w) = leaderboards w"
  "logs (donor_upsert addr amt now w) = logs w"
  by (simp_all add: donor_upsert_def)

lemma donor_upsert_has_row: "addr \<in> address ` set (donors (donor_upsert addr amt now w))"
proof (cases "\<exists>x \<in> set (donors w). address x = addr")
  case True
  then obtain x where x: "x \<in> set (donors w)" "address x = addr" by blast
  define g :: "donor \<Rightarrow> donor" where "g = (\<lambda>x. if address x = addr
                                 then x\<lparr>totalDonated := totalDonated x + amt,
                                        donationCount := donationCount x + 1,
                                        lastDonationAt := now\<rparr>
                                 else x)"
  have "donors (donor_upsert addr amt now w) = map g (donors w)"
    using True by (simp add: donor_upsert_def g_def)
  moreover have "address (g x) = addr" using x by (simp add: g_def)
  ultimately show ?thesis using x(1) by (metis image_eqI image_set)
next
  case False
  then show ?thesis by (simp add: donor_upsert_def)
qed

lemma donation_create_fresh:
  "donation_findUnique (txHash d) w = None \<Longrightarrow>
   donation_create d w = Done (w\<lparr>donations := donations w @ [d]\<rparr>)"
  by (auto simp add: donation_findUnique_def donation_create_def find_None_iff)

lemma donation_findUnique_frame [simp]:
  "donation_findUnique h (logMsg l m w) = donation_findUnique h w"
  by (simp add: donation_findUnique_def)

lemma campaign_findUnique_onChainId_frame [simp]:
  "campaign_findUnique_onChainId oc (logMsg l m w) = campaign_findUnique_onChainId oc w"
  "campaign_findUnique_onChainId oc (w\<lparr>donations := ds\<rparr>) = campaign_findUnique_onChainId oc w"
  by (simp_all add: campaign_findUnique_onChainId_def)

lemma campaign_findUnique_id_donations [simp]:
  "campaign_findUnique_id i (w\<lparr>donations := ds\<rparr>) = campaign_findUnique_id i w"
  by (simp add: campaign_findUnique_id_def)

text \<open>What the stream handler leaves behind when it creates the row.\<close>

lemma handleDonationEvent_created:
  assumes "DonationEventSchema_safeParse isUuid (r_payload event) = Some d"
    and "donation_findUnique (p_txHash d) w = None"
    and "campaign_findUnique_onChainId (p_campaignOnChainId d) w = Some c"
  shows "handleDonationEvent isUuid event now newId w =
     Done (logMsg Info ''Donation event processed''
       ((redis_publish ''donations''
          (RealtimeDonation
             \<lparr>ev_id = newId, ev_txHash = p_txHash d, ev_campaignId = c_id c,
              ev_campaignTitle = title c, ev_donorAddress = p_donor d,
              ev_amount = p_amount d, ev_message = p_message d, ev_isAnonymous = False,
              ev_status = PENDING, ev_timestamp = p_timestamp d\<rparr>)
          (incrementLeaderboard (CacheKeys_leaderboard_campaign (c_id c))
             (toLowerCase (p_donor d)) (parseFloat (p_amount d))
             (incrementLeaderboard CacheKeys_leaderboard_global
                (toLowerCase (p_donor d)) (parseFloat (p_amount d))
                (pushToFeed (CacheKeys_recentDonations_campaign (c_id c))
                   (RealtimeDonation
                      \<lparr>ev_id = newId, ev_txHash = p_txHash d, ev_campaignId = c_id c,
                       ev_campaignTitle = title c, ev_donorAddress = p_donor d,
                       ev_amount = p_amount d, ev_message = p_message d,
                       ev_isAnonymous = False, ev_status = PENDING,
                       ev_timestamp = p_timestamp d\<rparr>)
                   (pushToFeed CacheKeys_recentDonations_global
                      (RealtimeDonation
                         \<lparr>ev_id = newId, ev_txHash = p_txHash d, ev_campaignId = c_id c,
                          ev_campaignTitle = title c, ev_donorAddress = p_donor d,
                          ev_amount = p_amount d, ev_message = p_message d,
                          ev_isAnonymous = False, ev_status = PENDING,
                          ev_timestamp = p_timestamp d\<rparr>)
                      (donor_upsert (toLowerCase (p_donor d)) (p_amount d) now
                         (w\<lparr>donations := donations w @
                              [\<lparr>d_id = newId, txHash = p_txHash d, d_campaignId = c_id c,
                                donorAddress = toLowerCase (p_donor d),
                                amount = p_amount d, message = p_message d,
                                sdsEventId = Some (p_eventId d),
                                sdsReceivedAt = Some (p_timestamp d),
                                d_status = PENDING,
                                blockNumber = (case p_blockNumber d of
                                                 None \<Rightarrow> None
                                               | Some b \<Rightarrow> if b = 0 then None else Some b),
                                blockTimestamp = None, confirmedAt = None,
                                createdAt = now\<rparr>]\<rparr>)))))))
        \<lparr>emitted := emitted w @ [''donation'']\<rparr>))"
  using assms
  by (simp add: handleDonationEvent_def donation_create_fresh Let_def
      redis_publish_def incrementLeaderboard_def pushToFeed_def donor_upsert_def)

text \<open>What the Ledger Watcher leaves behind when it creates the row.\<close>

lemma processDonationConfirmation_created:
  assumes "donation_findUnique (l_transactionHash ev) w = None"
    and "campaign_findUnique_onChainId (l_campaignId ev) w = Some c"
  shows "processDonationConfirmation ev now newId w =
     updateCampaignTotals (c_id c) (l_amount ev)
       ((logMsg Info ''On-chain donation not found in DB, creating...'' w)
          \<lparr>donations := donations w @
             [\<lparr>d_id = newId, txHash = l_transactionHash ev, d_campaignId = c_id c,
               donorAddress = toLowerCase (l_donor ev), amount = l_amount ev,
               message = (if l_message ev = [] then None else Some (l_message ev)),
               sdsEventId = None, sdsReceivedAt = None, d_status = CONFIRMED,
               blockNumber = Some (l_blockNumber ev),
               blockTimestamp = Some (l_blockTimestamp ev * 1000),
               confirmedAt = Some now, createdAt = now\<rparr>]\<rparr>)"
  using assms
  by (simp add: processDonationConfirmation_def donation_create_fresh Let_def)

lemma processDonationConfirmation_unknown_campaign:
  assumes "donation_findUnique (l_transactionHash ev) w = None"
    and "campaign_findUnique_onChainId (l_campaignId ev) w = None"
  shows "processDonationConfirmation ev now newId w =
     Done (logMsg Error ''Campaign not found for on-chain donation''
            (logMsg Info ''On-chain donation not found in DB, creating...'' w))"
  using assms by (simp add: processDonationConfirmation_def Let_def)

lemma leaderboard_key_set:
  "leaderboards (incrementLeaderboard k m i w) (k, m) \<noteq> None"
  by (simp add: incrementLeaderboard_def)

lemma leaderboard_key_kept:
  "leaderboards w (k, m) \<noteq> None \<Longrightarrow> leaderboards (incrementLeaderboard k' m' i w) (k, m) \<noteq> None"
  by (simp add: incrementLeaderboard_def)

text \<open>
  C10.  The donor address enters the Donation row, the Donor row and the leaderboards only
  through \<open>toLowerCase\<close>.  Two events that differ in the letter case of the address
  (both accepted by the schema, or both refused) leave the same donations, donors and
  leaderboards.  A withdrawal event completes exactly the \<open>PROCESSING\<close> rows of its
  campaign and amount whose stored recipient equals the lowercased recipient of the event,
  and changes no other row; so two withdrawal events that differ in letter case complete
  the same rows.
\<close>

theorem donor_address_lowercased:
  assumes "toLowerCase a = toLowerCase b" and "isAddress a = isAddress b"
  shows "donations (world_of (handleDonationEvent isUuid
            (e\<lparr>r_payload := DonationFields (f\<lparr>p_donor := a\<rparr>)\<rparr>) now nid w))
       = donations (world_of (handleDonationEvent isUuid
            (e\<lparr>r_payload := DonationFields (f\<lparr>p_donor := b\<rparr>)\<rparr>) now nid w))
     \<and> donors (world_of (handleDonationEvent isUuid
            (e\<lparr>r_payload := DonationFields (f\<lparr>p_donor := a\<rparr>)\<rparr>) now nid w))
       = donors (world_of (handleDonationEvent isUuid
            (e\<lparr>r_payload := DonationFields (f\<lparr>p_donor := b\<rparr>)\<rparr>) now nid w))
     \<and> leaderboards (world_of (handleDonationEvent isUuid
            (e\<lparr>r_payload := DonationFields (f\<lparr>p_donor := a\<rparr>)\<rparr>) now nid w))
       = leaderboards (world_of (handleDonationEvent isUuid
            (e\<lparr>r_payload := DonationFields (f\<lparr>p_donor := b\<rparr>)\<rparr>) now nid w))
     \<and> processDonationConfirmation (ev\<lparr>l_donor := a\<rparr>) now nid w
       = processDonationConfirmation (ev\<lparr>l_donor := b\<rparr>) now nid w
     \<and> handleWithdrawal oc a amt h blockNo now w = handleWithdrawal oc b amt h blockNo now w
     \<and> (campaign_findUnique_onChainId oc w = Some cw
        \<longrightarrow> withdrawals (handleWithdrawal oc a amt h blockNo now w)
              = map (\<lambda>x. if w_campaignId x = c_id cw \<and> toAddress x = toLowerCase a
                              \<and> w_amount x = amt \<and> w_status x = W_PROCESSING
                           then x\<lparr>w_status := W_COMPLETED, w_txHash := Some h,
                                  w_blockNumber := Some blockNo, processedAt := Some now\<rparr>
                           else x)
                    (withdrawals w))
     \<and> (campaign_findUnique_onChainId oc w = None
        \<longrightarrow> withdrawals (handleWithdrawal oc a amt h blockNo now w) = withdrawals w)
     \<and> toLowerCase (toLowerCase a) = toLowerCase a
     \<and> (DonationEventSchema_safeParse isUuid (r_payload e) = Some d
          \<and> donation_findUnique (p_txHash d) w = None
          \<and> campaign_findUnique_onChainId (p_campaignOnChainId d) w = Some c
        \<longrightarrow> donorAddress (last (donations (world_of (handleDonationEvent isUuid e now nid w))))
              = toLowerCase (p_donor d)
          \<and> toLowerCase (p_donor d)
              \<in> address ` set (donors (world_of (handleDonationEvent isUuid e now nid w)))
          \<and> leaderboards (world_of (handleDonationEvent isUuid e now nid w))
               (CacheKeys_leaderboard_global, toLowerCase (p_donor d)) \<noteq> None
          \<and> leaderboards (world_of (handleDonationEvent isUuid e now nid w))
               (CacheKeys_leaderboard_campaign (c_id c), toLowerCase (p_donor d)) \<noteq> None)
     \<and> (donation_findUnique (l_transactionHash ev) w = None
          \<and> campaign_findUnique_onChainId (l_campaignId ev) w = Some c
        \<longrightarrow> donorAddress (last (donations (world_of (processDonationConfirmation ev now nid w))))
              = toLowerCase (l_donor ev))"
proof -
  note s = handleDonationEvent_donor_case
    [where isUuid = isUuid and e = e and f = f and now = now and nid = nid and w = w, OF assms]
  have l: "processDonationConfirmation (ev\<lparr>l_donor := a\<rparr>) now nid w
       = processDonationConfirmation (ev\<lparr>l_donor := b\<rparr>) now nid w"
    using assms(1)
    by (simp add: processDonationConfirmation_def Let_def cong: option.case_cong)
  have wd: "handleWithdrawal oc a amt h blockNo now w = handleWithdrawal oc b amt h blockNo now w"
    using assms(1) by (simp add: handleWithdrawal_def cong: option.case_cong)
  have wm: "campaign_findUnique_onChainId oc w = Some cw
        \<longrightarrow> withdrawals (handleWithdrawal oc a amt h blockNo now w)
              = map (\<lambda>x. if w_campaignId x = c_id cw \<and> toAddress x = toLowerCase a
                              \<and> w_amount x = amt \<and> w_status x = W_PROCESSING
                           then x\<lparr>w_status := W_COMPLETED, w_txHash := Some h,
                                  w_blockNumber := Some blockNo, processedAt := Some now\<rparr>
                           else x)
                    (withdrawals w)"
    by (simp add: handleWithdrawal_def logMsg_def)
  have wn: "campaign_findUnique_onChainId oc w = None
        \<longrightarrow> withdrawals (handleWithdrawal oc a amt h blockNo now w) = withdrawals w"
    by (simp add: handleWithdrawal_def logMsg_def)
  have cs: "DonationEventSchema_safeParse isUuid (r_payload e) = Some d
          \<and> donation_findUnique (p_txHash d) w = None
          \<and> campaign_findUnique_onChainId (p_campaignOnChainId d) w = Some c
        \<longrightarrow> donorAddress (last (donations (world_of (handleDonationEvent isUuid e now nid w))))
              = toLowerCase (p_donor d)
          \<and> toLowerCase (p_donor d)
              \<in> address ` set (donors (world_of (handleDonationEvent isUuid e now nid w)))
          \<and> leaderboards (world_of (handleDonationEvent isUuid e now nid w))
               (CacheKeys_leaderboard_global, toLowerCase (p_donor d)) \<noteq> None
          \<and> leaderboards (world_of (handleDonationEvent isUuid e now nid w))
               (CacheKeys_leaderboard_campaign (c_id c), toLowerCase (p_donor d)) \<noteq> None"
    by (auto simp add: handleDonationEvent_created donor_upsert_has_row leaderboard_key_set
        leaderboard_key_kept simp del: image_eqI)
  have cl: "donation_findUnique (l_transactionHash ev) w = None
          \<and> campaign_findUnique_onChainId (l_campaignId ev) w = Some c
        \<longrightarrow> donorAddress (last (donations (world_of (processDonationConfirmation ev now nid w))))
              = toLowerCase (l_donor ev)"
    by (simp add: processDonationConfirmation_created updateCampaignTotals_frame)
  from s l wd wm wn cs cl toLowerCase_idem show ?thesis by blast
qed

text \<open>
  C10 on the announcement and the settlement of \<open>txAA\<close>, for the mixed-case address and
  its lowercase form, and on a withdrawal to the mixed-case address: of the three stored
  withdrawals only the one whose recipient is the lowercase form is completed.
\<close>

theorem donor_address_lowercased_witness:
  "toLowerCase donorA = toLowerCase donorA_lower
   \<and> isAddress donorA = isAddress donorA_lower
   \<and> donorA \<noteq> donorA_lower
   \<and> donations (world_of (handleDonationEvent uuid36
          (announcedAA\<lparr>r_payload := DonationFields (fieldsAA\<lparr>p_donor := donorA\<rparr>)\<rparr>)
          1700000000000 ''d1'' world0))
     = donations (world_of (handleDonationEvent uuid36
          (announcedAA\<lparr>r_payload := DonationFields (fieldsAA\<lparr>p_donor := donorA_lower\<rparr>)\<rparr>)
          1700000000000 ''d1'' world0))
   \<and> donors (world_of (handleDonationEvent uuid36
          (announcedAA\<lparr>r_payload := DonationFields (fieldsAA\<lparr>p_donor := donorA\<rparr>)\<rparr>)
          1700000000000 ''d1'' world0))
     = donors (world_of (handleDonationEvent uuid36
          (announcedAA\<lparr>r_payload := DonationFields (fieldsAA\<lparr>p_donor := donorA_lower\<rparr>)\<rparr>)
          1700000000000 ''d1'' world0))
   \<and> leaderboards (world_of (handleDonationEvent uuid36
          (announcedAA\<lparr>r_payload := DonationFields (fieldsAA\<lparr>p_donor := donorA\<rparr>)\<rparr>)
          1700000000000 ''d1'' world0))
     = leaderboards (world_of (handleDonationEvent uuid36
          (announcedAA\<lparr>r_payload := DonationFields (fieldsAA\<lparr>p_donor := donorA_lower\<rparr>)\<rparr>)
          1700000000000 ''d1'' world0))
   \<and> processDonationConfirmation (settledAA\<lparr>l_donor := donorA\<rparr>) 1700000000000 ''d1'' world0
     = processDonationConfirmation (settledAA\<lparr>l_donor := donorA_lower\<rparr>) 1700000000000 ''d1'' world0
   \<and> DonationEventSchema_safeParse uuid36 (r_payload announcedAA) = Some fieldsAA
   \<and> donation_findUnique (p_txHash fieldsAA) world0 = None
   \<and> campaign_findUnique_onChainId (p_campaignOnChainId fieldsAA) world0 = Some campaign1
   \<and> donorAddress (last (donations (world_of
          (handleDonationEvent uuid36 announcedAA 1700000000000 ''d1'' world0))))
       = donorA_lower
   \<and> donorA_lower \<in> address ` set (donors (world_of
          (handleDonationEvent uuid36 announcedAA 1700000000000 ''d1'' world0)))
   \<and> leaderboards (world_of (handleDonationEvent uuid36 announcedAA 1700000000000 ''d1'' world0))
        (CacheKeys_leaderboard_global, donorA_lower) \<noteq> None
   \<and> donation_findUnique (l_transactionHash settledAA) world0 = None
   \<and> campaign_findUnique_onChainId (l_campaignId settledAA) world0 = Some campaign1
   \<and> donorAddress (last (donations (world_of
          (processDonationConfirmation settledAA 1700000000000 ''d1'' world0))))
       = donorA_lower
   \<and> campaign_findUnique_onChainId ''1'' world_withdrawals = Some campaign1
   \<and> withdrawals (handleWithdrawal ''1'' donorA 100 txWW 88 1700000000000 world_withdrawals)
     = [withdrawal_lower\<lparr>w_status := W_COMPLETED, w_txHash := Some txWW,
                          w_blockNumber := Some 88, processedAt := Some 1700000000000\<rparr>,
        withdrawal_mixed, withdrawal_other]
   \<and> withdrawals (handleWithdrawal ''1'' donorA_lower 100 txWW 88 1700000000000
                     world_withdrawals)
     = withdrawals (handleWithdrawal ''1'' donorA 100 txWW 88 1700000000000 world_withdrawals)
   \<and> campaign_findUnique_onChainId ''2'' world_withdrawals = None
   \<and> withdrawals (handleWithdrawal ''2'' donorA 100 txWW 88 1700000000000 world_withdrawals)
     = withdrawals world_withdrawals"
proof -
  have low: "toLowerCase donorA = donorA_lower"
    by (simp add: toLowerCase_def lowerChar_def donorA_def donorA_lower_def)
  have low': "toLowerCase donorA_lower = donorA_lower"
    by (simp add: toLowerCase_def lowerChar_def donorA_lower_def)
  have h1: "toLowerCase donorA = toLowerCase donorA_lower" using low low' by simp
  have a: "isAddress donorA" by (simp add: isAddress_def isHex_def donorA_def)
  have a': "isAddress donorA_lower" by (simp add: isAddress_def isHex_def donorA_lower_def)
  have h2: "isAddress donorA = isAddress donorA_lower" using a a' by simp
  have ne: "donorA \<noteq> donorA_lower" by (simp add: donorA_def donorA_lower_def)
  have b: "isTxHash txAA" by (simp add: isTxHash_def isHex_def txAA_def)
  have p: "DonationEventSchema_safeParse uuid36 (r_payload announcedAA) = Some fieldsAA"
    using a b
    by (simp add: DonationEventSchema_safeParse_def announcedAA_def fieldsAA_def uuid36_def)
  have q: "donation_findUnique (p_txHash fieldsAA) world0 = None"
    by (simp add: donation_findUnique_def world0_def)
  have r: "campaign_findUnique_onChainId (p_campaignOnChainId fieldsAA) world0 = Some campaign1"
    by (simp add: campaign_findUnique_onChainId_def world0_def campaign1_def fieldsAA_def)
  have q2: "donation_findUnique (l_transactionHash settledAA) world0 = None"
    by (simp add: donation_findUnique_def world0_def)
  have r2: "campaign_findUnique_onChainId (l_campaignId settledAA) world0 = Some campaign1"
    by (simp add: campaign_findUnique_onChainId_def world0_def campaign1_def settledAA_def)
  have d: "p_donor fieldsAA = donorA" "l_donor settledAA = donorA"
    by (simp_all add: fieldsAA_def settledAA_def)
  note t = donor_address_lowercased
    [where a = donorA and b = donorA_lower and isUuid = uuid36 and e = announcedAA
       and f = fieldsAA and d = fieldsAA and w = world0 and c = campaign1 and ev = settledAA
       and now = 1700000000000 and nid = "''d1''", OF h1 h2]
  have first: "toLowerCase donorA = toLowerCase donorA_lower
   \<and> isAddress donorA = isAddress donorA_lower
   \<and> donorA \<noteq> donorA_lower
   \<and> donations (world_of (handleDonationEvent uuid36
          (announcedAA\<lparr>r_payload := DonationFields (fieldsAA\<lparr>p_donor := donorA\<rparr>)\<rparr>)
          1700000000000 ''d1'' world0))
     = donations (world_of (handleDonationEvent uuid36
          (announcedAA\<lparr>r_payload := DonationFields (fieldsAA\<lparr>p_donor := donorA_lower\<rparr>)\<rparr>)
          1700000000000 ''d1'' world0))
   \<and> donors (world_of (handleDonationEvent uuid36
          (announcedAA\<lparr>r_payload := DonationFields (fieldsAA\<lparr>p_donor := donorA\<rparr>)\<rparr>)
          1700000000000 ''d1'' world0))
     = donors (world_of (handleDonationEvent uuid36
          (announcedAA\<lparr>r_payload := DonationFields (fieldsAA\<lparr>p_donor := donorA_lower\<rparr>)\<rparr>)
          1700000000000 ''d1'' world0))
   \<and> leaderboards (world_of (handleDonationEvent uuid36
          (announcedAA\<lparr>r_payload := DonationFields (fieldsAA\<lparr>p_donor := donorA\<rparr>)\<rparr>)
          1700000000000 ''d1'' world0))
     = leaderboards (world_of (handleDonationEvent uuid36
          (announcedAA\<lparr>r_payload := DonationFields (fieldsAA\<lparr>p_donor := donorA_lower\<rparr>)\<rparr>)
          1700000000000 ''d1'' world0))
   \<and> processDonationConfirmation (settledAA\<lparr>l_donor := donorA\<rparr>) 1700000000000 ''d1'' world0
     = processDonationConfirmation (settledAA\<lparr>l_donor := donorA_lower\<rparr>) 1700000000000 ''d1'' world0
   \<and> DonationEventSchema_safeParse uuid36 (r_payload announcedAA) = Some fieldsAA
   \<and> donation_findUnique (p_txHash fieldsAA) world0 = None
   \<and> campaign_findUnique_onChainId (p_campaignOnChainId fieldsAA) world0 = Some campaign1
   \<and> donorAddress (last (donations (world_of
          (handleDonationEvent uuid36 announcedAA 1700000000000 ''d1'' world0))))
       = donorA_lower
   \<and> donorA_lower \<in> address ` set (donors (world_of
          (handleDonationEvent uuid36 announcedAA 1700000000000 ''d1'' world0)))
   \<and> leaderboards (world_of (handleDonationEvent uuid36 announcedAA 1700000000000 ''d1'' world0))
        (CacheKeys_leaderboard_global, donorA_lower) \<noteq> None
   \<and> donation_findUnique (l_transactionHash settledAA) world0 = None
   \<and> campaign_findUnique_onChainId (l_campaignId settledAA) world0 = Some campaign1
   \<and> donorAddress (last (donations (world_of
          (processDonationConfirmation settledAA 1700000000000 ''d1'' world0))))
       = donorA_lower"
    using t p q r q2 r2 h1 h2 ne unfolding d low by blast
  have found: "campaign_findUnique_onChainId ''1'' world_withdrawals = Some campaign1"
    by (simp add: campaign_findUnique_onChainId_def world_withdrawals_def world0_def
        campaign1_def)
  have missing: "campaign_findUnique_onChainId ''2'' world_withdrawals = None"
    by (simp add: campaign_findUnique_onChainId_def world_withdrawals_def world0_def
        campaign1_def)
  have rows: "withdrawals world_withdrawals
                = [withdrawal_lower, withdrawal_mixed, withdrawal_other]"
    by (simp add: world_withdrawals_def)
  have row: "w_campaignId withdrawal_lower = c_id campaign1"
    "toAddress withdrawal_lower = donorA_lower" "w_amount withdrawal_lower = 100"
    "w_status withdrawal_lower = W_PROCESSING"
    "toAddress withdrawal_mixed = donorA"
    "toAddress withdrawal_other \<noteq> donorA_lower"
    by (simp_all add: withdrawal_lower_def withdrawal_mixed_def withdrawal_other_def
        campaign1_def donorA_lower_def)
  note u = donor_address_lowercased
    [where a = donorA and b = donorA_lower and isUuid = uuid36 and e = announcedAA
       and f = fieldsAA and w = world_withdrawals and cw = campaign1 and oc = "''1''"
       and amt = 100 and h = txWW and blockNo = 88 and now = 1700000000000, OF h1 h2]
  note v = donor_address_lowercased
    [where a = donorA and b = donorA_lower and isUuid = uuid36 and e = announcedAA
       and f = fieldsAA and w = world_withdrawals and oc = "''2''"
       and amt = 100 and h = txWW and blockNo = 88 and now = 1700000000000, OF h1 h2]
  have "withdrawals (handleWithdrawal ''1'' donorA 100 txWW 88 1700000000000 world_withdrawals)
     = map (\<lambda>x. if w_campaignId x = c_id campaign1 \<and> toAddress x = toLowerCase donorA
                      \<and> w_amount x = 100 \<and> w_status x = W_PROCESSING
                   then x\<lparr>w_status := W_COMPLETED, w_txHash := Some txWW,
                          w_blockNumber := Some 88, processedAt := Some 1700000000000\<rparr>
                   else x)
            (withdrawals world_withdrawals)"
    using u found by blast
  then have completed: "withdrawals (handleWithdrawal ''1'' donorA 100 txWW 88 1700000000000
                                  world_withdrawals)
     = [withdrawal_lower\<lparr>w_status := W_COMPLETED, w_txHash := Some txWW,
                          w_blockNumber := Some 88, processedAt := Some 1700000000000\<rparr>,
        withdrawal_mixed, withdrawal_other]"
    by (simp add: rows low row ne)
  have same: "withdrawals (handleWithdrawal ''1'' donorA_lower 100 txWW 88 1700000000000
                     world_withdrawals)
     = withdrawals (handleWithdrawal ''1'' donorA 100 txWW 88 1700000000000 world_withdrawals)"
    using u by simp
  have none: "withdrawals (handleWithdrawal ''2'' donorA 100 txWW 88 1700000000000
                              world_withdrawals)
     = withdrawals world_withdrawals"
    using v missing by blast
  from first found completed same missing none show ?thesis by blast
qed

section \<open>Ledger Watcher: a settlement the stream never announced\<close>

lemma find_append_new: "find P xs = None \<Longrightarrow> P x \<Longrightarrow> find P (xs @ [x]) = Some x"
  by (induction xs) (auto split: if_splits)

lemma then_log_campaigns:
  "campaigns (world_of (andThen r (\<lambda>w'. Done (logMsg l m w')))) = campaigns (world_of r)"
  by (cases r) simp_all

lemma updateCampaignTotals_campaigns_cong:
  "campaigns w = campaigns w' \<Longrightarrow>
   campaigns (world_of (updateCampaignTotals cid a w))
     = campaigns (world_of (updateCampaignTotals cid a w'))"
  by (simp add: updateCampaignTotals_def campaign_findUnique_id_def Let_def
      split: option.splits)

lemma confirm_after_announcement:
  assumes nr: "donation_findUnique (l_transactionHash ev) w = None"
    and cf: "campaign_findUnique_onChainId (l_campaignId ev) w = Some c"
    and sp: "DonationEventSchema_safeParse isUuid (r_payload sev) = Some d"
    and tx: "p_txHash d = l_transactionHash ev"
    and oc: "p_campaignOnChainId d = l_campaignId ev"
  shows "campaigns (world_of (processDonationConfirmation ev now2 nid2
                     (world_of (handleDonationEvent isUuid sev now1 nid1 w))))
       = campaigns (world_of (processDonationConfirmation ev now nid w))"
proof -
  define ws where "ws = world_of (handleDonationEvent isUuid sev now1 nid1 w)"
  define row where "row =
     \<lparr>d_id = nid1, txHash = p_txHash d, d_campaignId = c_id c,
      donorAddress = toLowerCase (p_donor d), amount = p_amount d, message = p_message d,
      sdsEventId = Some (p_eventId d), sdsReceivedAt = Some (p_timestamp d),
      d_status = PENDING,
      blockNumber = (case p_blockNumber d of None \<Rightarrow> None
                     | Some b \<Rightarrow> if b = 0 then None else Some b),
      blockTimestamp = None, confirmedAt = None, createdAt = now1\<rparr>"
  have nr': "donation_findUnique (p_txHash d) w = None" using nr tx by simp
  have cf': "campaign_findUnique_onChainId (p_campaignOnChainId d) w = Some c"
    using cf oc by simp
  have ds: "donations ws = donations w @ [row]" and cs: "campaigns ws = campaigns w"
    unfolding ws_def row_def
    by (simp_all add: handleDonationEvent_created [OF sp nr' cf'])
  have fnd: "donation_findUnique (l_transactionHash ev) ws = Some row"
    using nr tx unfolding donation_findUnique_def ds
    by (intro find_append_new) (simp_all add: row_def)
  define upd where "upd = donation_update (d_id row)
      (\<lambda>x. x\<lparr>d_status := CONFIRMED, blockNumber := Some (l_blockNumber ev),
              blockTimestamp := Some (l_blockTimestamp ev * 1000),
              confirmedAt := Some now2\<rparr>) ws"
  have "\<exists>x \<in> set (donations ws). d_id x = d_id row" by (simp add: ds)
  then obtain ws2 where upd_done: "upd = Done ws2" and cs2: "campaigns ws2 = campaigns w"
    unfolding upd_def by (simp add: donation_update_def cs)
  have left: "campaigns (world_of (processDonationConfirmation ev now2 nid2 ws))
           = campaigns (world_of (updateCampaignTotals (c_id c) (l_amount ev) ws2))"
    using upd_done unfolding upd_def
    by (simp add: processDonationConfirmation_def Let_def fnd then_log_campaigns row_def)
  define w1 where "w1 = (logMsg Info ''On-chain donation not found in DB, creating...'' w)
          \<lparr>donations := donations w @
             [\<lparr>d_id = nid, txHash = l_transactionHash ev, d_campaignId = c_id c,
               donorAddress = toLowerCase (l_donor ev), amount = l_amount ev,
               message = (if l_message ev = [] then None else Some (l_message ev)),
               sdsEventId = None, sdsReceivedAt = None, d_status = CONFIRMED,
               blockNumber = Some (l_blockNumber ev),
               blockTimestamp = Some (l_blockTimestamp ev * 1000),
               confirmedAt = Some now, createdAt = now\<rparr>]\<rparr>"
  have right: "campaigns (world_of (processDonationConfirmation ev now nid w))
           = campaigns (world_of (updateCampaignTotals (c_id c) (l_amount ev) w1))"
    by (simp add: processDonationConfirmation_created [OF nr cf] w1_def)
  have "campaigns ws2 = campaigns w1" by (simp add: cs2 w1_def)
  then show ?thesis
    unfolding ws_def [symmetric] left right
    by (rule updateCampaignTotals_campaigns_cong)
qed

text \<open>
  C4 (as amended).  For a donation-settled notification whose transaction hash has no
  Donation row: when the on-chain campaign id is not known locally, nothing is created, no
  campaign changes and an error is logged; when it is known, the Donation is created directly as \<open>CONFIRMED\<close>
  with the lowercased donor and the settlement metadata, the campaign's running total grows
  by the amount and its donor count by one, and one \<open>campaign_update\<close> is published.  The
  campaign table ends exactly as it does when the stream announced the donation first and the
  ledger confirmed it afterwards.
\<close>

theorem ledger_first_creation:
  assumes nr: "donation_findUnique (l_transactionHash ev) w = None"
  shows "(campaign_findUnique_onChainId (l_campaignId ev) w = None \<longrightarrow>
            donations (world_of (processDonationConfirmation ev now nid w)) = donations w
          \<and> campaigns (world_of (processDonationConfirmation ev now nid w)) = campaigns w
          \<and> logs (world_of (processDonationConfirmation ev now nid w))
              = logs w @ [(Info, ''On-chain donation not found in DB, creating...''),
                          (Error, ''Campaign not found for on-chain donation'')])
       \<and> (campaign_findUnique_onChainId (l_campaignId ev) w = Some c
            \<and> campaign_findUnique_id (c_id c) w = Some c \<longrightarrow>
          (\<exists>w' c'. processDonationConfirmation ev now nid w = Done w'
             \<and> donations w' = donations w @
                  [\<lparr>d_id = nid, txHash = l_transactionHash ev, d_campaignId = c_id c,
                    donorAddress = toLowerCase (l_donor ev), amount = l_amount ev,
                    message = (if l_message ev = [] then None else Some (l_message ev)),
                    sdsEventId = None, sdsReceivedAt = None, d_status = CONFIRMED,
                    blockNumber = Some (l_blockNumber ev),
                    blockTimestamp = Some (l_blockTimestamp ev * 1000),
                    confirmedAt = Some now, createdAt = now\<rparr>]
             \<and> campaign_findUnique_id (c_id c) w' = Some c'
             \<and> currentAmount c' = currentAmount c + l_amount ev
             \<and> donorCount c' = donorCount c + 1
             \<and> published w' = published w @
                  [(''campaign_updates'',
                    RealtimeCampaignUpdate (c_id c) (currentAmount c + l_amount ev)
                      (donorCount c + 1))]))
       \<and> (campaign_findUnique_onChainId (l_campaignId ev) w = Some c
            \<and> DonationEventSchema_safeParse isUuid (r_payload sev) = Some d
            \<and> p_txHash d = l_transactionHash ev
            \<and> p_campaignOnChainId d = l_campaignId ev \<longrightarrow>
          campaigns (world_of (processDonationConfirmation ev now2 nid2
                       (world_of (handleDonationEvent isUuid sev now1 nid1 w))))
            = campaigns (world_of (processDonationConfirmation ev now nid w)))"
proof (intro conjI impI)
  assume "campaign_findUnique_onChainId (l_campaignId ev) w = None"
  then show "donations (world_of (processDonationConfirmation ev now nid w)) = donations w"
    and "campaigns (world_of (processDonationConfirmation ev now nid w)) = campaigns w"
    and "logs (world_of (processDonationConfirmation ev now nid w))
              = logs w @ [(Info, ''On-chain donation not found in DB, creating...''),
                          (Error, ''Campaign not found for on-chain donation'')]"
    by (simp_all add: processDonationConfirmation_unknown_campaign [OF nr] logMsg_def)
next
  assume a: "campaign_findUnique_onChainId (l_campaignId ev) w = Some c
            \<and> campaign_findUnique_id (c_id c) w = Some c"
  define w1 where "w1 = (logMsg Info ''On-chain donation not found in DB, creating...'' w)
          \<lparr>donations := donations w @
             [\<lparr>d_id = nid, txHash = l_transactionHash ev, d_campaignId = c_id c,
               donorAddress = toLowerCase (l_donor ev), amount = l_amount ev,
               message = (if l_message ev = [] then None else Some (l_message ev)),
               sdsEventId = None, sdsReceivedAt = None, d_status = CONFIRMED,
               blockNumber = Some (l_blockNumber ev),
               blockTimestamp = Some (l_blockTimestamp ev * 1000),
               confirmedAt = Some now, createdAt = now\<rparr>]\<rparr>"
  have p: "processDonationConfirmation ev now nid w
             = updateCampaignTotals (c_id c) (l_amount ev) w1"
    using a by (simp add: processDonationConfirmation_created [OF nr] w1_def)
  have f: "campaign_findUnique_id (c_id c) w1 = Some c" using a by (simp add: w1_def)
  have pub: "published w1 = published w" by (simp add: w1_def logMsg_def)
  have don: "donations w1 = donations w @
                  [\<lparr>d_id = nid, txHash = l_transactionHash ev, d_campaignId = c_id c,
                    donorAddress = toLowerCase (l_donor ev), amount = l_amount ev,
                    message = (if l_message ev = [] then None else Some (l_message ev)),
                    sdsEventId = None, sdsReceivedAt = None, d_status = CONFIRMED,
                    blockNumber = Some (l_blockNumber ev),
                    blockTimestamp = Some (l_blockTimestamp ev * 1000),
                    confirmedAt = Some now, createdAt = now\<rparr>]"
    by (simp add: w1_def)
  show "\<exists>w' c'. processDonationConfirmation ev now nid w = Done w'
             \<and> donations w' = donations w @
                  [\<lparr>d_id = nid, txHash = l_transactionHash ev, d_campaignId = c_id c,
                    donorAddress = toLowerCase (l_donor ev), amount = l_amount ev,
                    message = (if l_message ev = [] then None else Some (l_message ev)),
                    sdsEventId = None, sdsReceivedAt = None, d_status = CONFIRMED,
                    blockNumber = Some (l_blockNumber ev),
                    blockTimestamp = Some (l_blockTimestamp ev * 1000),
                    confirmedAt = Some now, createdAt = now\<rparr>]
             \<and> campaign_findUnique_id (c_id c) w' = Some c'
             \<and> currentAmount c' = currentAmount c + l_amount ev
             \<and> donorCount c' = donorCount c + 1
             \<and> published w' = published w @
                  [(''campaign_updates'',
                    RealtimeCampaignUpdate (c_id c) (currentAmount c + l_amount ev)
                      (donorCount c + 1))]"
    unfolding p
    using f pub don
    by (auto simp add: updateCampaignTotals_found [OF f] campaign_findUnique_id_modify)
next
  assume "campaign_findUnique_onChainId (l_campaignId ev) w = Some c
            \<and> DonationEventSchema_safeParse isUuid (r_payload sev) = Some d
            \<and> p_txHash d = l_transactionHash ev
            \<and> p_campaignOnChainId d = l_campaignId ev"
  then show "campaigns (world_of (processDonationConfirmation ev now2 nid2
                       (world_of (handleDonationEvent isUuid sev now1 nid1 w))))
            = campaigns (world_of (processDonationConfirmation ev now nid w))"
    using confirm_after_announcement [OF nr] by blast
qed

text \<open>
  The amended C4 on the empty store: \<open>settledZZ\<close> names an unknown campaign,
  \<open>settledAA\<close> a known one.
\<close>

theorem ledger_first_creation_witness:
  "donation_findUnique (l_transactionHash settledZZ) world0 = None
   \<and> campaign_findUnique_onChainId (l_campaignId settledZZ) world0 = None
   \<and> donations (world_of (processDonationConfirmation settledZZ 1700000001000 ''d1'' world0))
       = donations world0
   \<and> logs (world_of (processDonationConfirmation settledZZ 1700000001000 ''d1'' world0))
       = [(Info, ''On-chain donation not found in DB, creating...''),
          (Error, ''Campaign not found for on-chain donation'')]
   \<and> donation_findUnique (l_transactionHash settledAA) world0 = None
   \<and> campaign_findUnique_onChainId (l_campaignId settledAA) world0 = Some campaign1
   \<and> campaign_findUnique_id (c_id campaign1) world0 = Some campaign1
   \<and> (\<exists>w' c'. processDonationConfirmation settledAA 1700000001000 ''d1'' world0 = Done w'
         \<and> map d_status (donations w') = [CONFIRMED]
         \<and> campaign_findUnique_id (c_id campaign1) w' = Some c'
         \<and> currentAmount c' = 1000000000000000000
         \<and> donorCount c' = 1)
   \<and> DonationEventSchema_safeParse uuid36 (r_payload announcedAA) = Some fieldsAA
   \<and> p_txHash fieldsAA = l_transactionHash settledAA
   \<and> p_campaignOnChainId fieldsAA = l_campaignId settledAA
   \<and> campaigns (world_of (processDonationConfirmation settledAA 1700000002000 ''d2''
                  (world_of (handleDonationEvent uuid36 announcedAA 1700000000000 ''d1'' world0))))
       = campaigns (world_of (processDonationConfirmation settledAA 1700000001000 ''d1'' world0))"
proof -
  have z1: "donation_findUnique (l_transactionHash settledZZ) world0 = None"
    by (simp add: donation_findUnique_def world0_def)
  have z2: "campaign_findUnique_onChainId (l_campaignId settledZZ) world0 = None"
    by (simp add: campaign_findUnique_onChainId_def world0_def campaign1_def settledZZ_def)
  have a1: "donation_findUnique (l_transactionHash settledAA) world0 = None"
    by (simp add: donation_findUnique_def world0_def)
  have a2: "campaign_findUnique_onChainId (l_campaignId settledAA) world0 = Some campaign1"
    by (simp add: campaign_findUnique_onChainId_def world0_def campaign1_def settledAA_def)
  have a3: "campaign_findUnique_id (c_id campaign1) world0 = Some campaign1"
    by (simp add: campaign_findUnique_id_def world0_def)
  have ad: "isAddress donorA" by (simp add: isAddress_def isHex_def donorA_def)
  have tx: "isTxHash txAA" by (simp add: isTxHash_def isHex_def txAA_def)
  have p: "DonationEventSchema_safeParse uuid36 (r_payload announcedAA) = Some fieldsAA"
    using ad tx
    by (simp add: DonationEventSchema_safeParse_def announcedAA_def fieldsAA_def uuid36_def)
  have e1: "p_txHash fieldsAA = l_transactionHash settledAA"
    and e2: "p_campaignOnChainId fieldsAA = l_campaignId settledAA"
    by (simp_all add: fieldsAA_def settledAA_def)
  have v: "currentAmount campaign1 + l_amount settledAA = 1000000000000000000"
    "donorCount campaign1 + 1 = 1"
    by (simp_all add: campaign1_def settledAA_def)
  note tz = ledger_first_creation [OF z1, of "1700000001000" "''d1''"]
  note ta = ledger_first_creation [OF a1, where c = campaign1 and now = 1700000001000
      and nid = "''d1''" and isUuid = uuid36 and sev = announcedAA and d = fieldsAA
      and ?now2.0 = 1700000002000 and ?nid2.0 = "''d2''" and ?now1.0 = 1700000000000
      and ?nid1.0 = "''d1''"]
  from tz z2 have r1: "donations (world_of (processDonationConfirmation settledZZ 1700000001000 ''d1'' world0))
       = donations world0" by blast
  from tz z2 have "logs (world_of (processDonationConfirmation settledZZ 1700000001000 ''d1'' world0))
       = logs world0 @ [(Info, ''On-chain donation not found in DB, creating...''),
                        (Error, ''Campaign not found for on-chain donation'')]" by blast
  then have r1l: "logs (world_of (processDonationConfirmation settledZZ 1700000001000 ''d1'' world0))
       = [(Info, ''On-chain donation not found in DB, creating...''),
          (Error, ''Campaign not found for on-chain donation'')]"
    by (simp add: world0_def)
  from ta a2 a3 obtain w' c' where
    r2: "processDonationConfirmation settledAA 1700000001000 ''d1'' world0 = Done w'"
      "donations w' = donations world0 @
                  [\<lparr>d_id = ''d1'', txHash = l_transactionHash settledAA, d_campaignId = c_id campaign1,
                    donorAddress = toLowerCase (l_donor settledAA), amount = l_amount settledAA,
                    message = (if l_message settledAA = [] then None else Some (l_message settledAA)),
                    sdsEventId = None, sdsReceivedAt = None, d_status = CONFIRMED,
                    blockNumber = Some (l_blockNumber settledAA),
                    blockTimestamp = Some (l_blockTimestamp settledAA * 1000),
                    confirmedAt = Some 1700000001000, createdAt = 1700000001000\<rparr>]"
      "campaign_findUnique_id (c_id campaign1) w' = Some c'"
      "currentAmount c' = currentAmount campaign1 + l_amount settledAA"
      "donorCount c' = donorCount campaign1 + 1"
    by blast
  have r2d: "map d_status (donations w') = [CONFIRMED]"
    by (simp add: r2(2) world0_def)
  from ta a2 p e1 e2 have r3: "campaigns (world_of (processDonationConfirmation settledAA 1700000002000 ''d2''
                  (world_of (handleDonationEvent uuid36 announcedAA 1700000000000 ''d1'' world0))))
       = campaigns (world_of (processDonationConfirmation settledAA 1700000001000 ''d1'' world0))"
    by blast
  from r2 r2d v have r2': "\<exists>w' c'. processDonationConfirmation settledAA 1700000001000 ''d1'' world0 = Done w'
         \<and> map d_status (donations w') = [CONFIRMED]
         \<and> campaign_findUnique_id (c_id campaign1) w' = Some c'
         \<and> currentAmount c' = 1000000000000000000
         \<and> donorCount c' = 1"
    by auto
  from z1 z2 r1 r1l a1 a2 a3 r2' p e1 e2 r3 show ?thesis by blast
qed

text \<open>
  C4 as stated fails twice on the empty store.  A settlement that names an unknown campaign
  creates no Donation.  A settlement of a known campaign creates the \<open>CONFIRMED\<close> row but
  leaves the Donor table empty, where the stream's announcement of the same donation writes
  the Donor row.
\<close>

theorem ledger_first_counterexample:
  "donation_findUnique (l_transactionHash settledZZ) world0 = None
   \<and> donations (onDonationReceived settledZZ 1700000001000 ''d1'' world0) = []
   \<and> donation_findUnique (l_transactionHash settledAA) world0 = None
   \<and> map d_status (donations world_confirmed_once) = [CONFIRMED]
   \<and> donors world_confirmed_once = []
   \<and> map totalDonated (donors world_announced) = [1000000000000000000]
   \<and> map donationCount (donors world_announced) = [1]"
  by (simp add: world_confirmed_once_def world_announced_def settledZZ_def
      announcedAA_def fieldsAA_def uuid36_def
      handleEvent_def handleDonationEvent_def DonationEventSchema_safeParse_def
      isAddress_def isTxHash_def isHex_def donorA_def donor_upsert_def
      sdsEvent_create_def sdsEvent_update_def pushToFeed_def incrementLeaderboard_def
      parseFloat_def onDonationReceived_def
      processDonationConfirmation_def updateCampaignTotals_def donation_findUnique_def
      campaign_findUnique_onChainId_def campaign_findUnique_id_def donation_create_def
      donation_update_def campaign_modify_def redis_publish_def redis_del_def
      redis_delPattern_def logMsg_def andThen_def world0_def campaign1_def settledAA_def
      txAA_def Number_def toDouble_def roundToEven_def expo.simps Let_def
      del: andThen_simps)

section \<open>Arithmetic on amounts\<close>

lemma roundToEven_small: "0 \<le> n \<Longrightarrow> n < 2 ^ 53 \<Longrightarrow> roundToEven n = n"
  by (simp add: roundToEven_def expo.simps [of n])

lemma toDouble_exact: "\<bar>n\<bar> < 2 ^ 53 \<Longrightarrow> toDouble n = n"
  by (simp add: toDouble_def roundToEven_small)

lemma find_map_address:
  "(\<And>x. address (g x) = address x) \<Longrightarrow>
   find (\<lambda>x. address x = a) (map (\<lambda>x. if address x = a then g x else x) xs)
     = map_option g (find (\<lambda>x. address x = a) xs)"
  by (induction xs) auto

lemma donor_upsert_total:
  "map_option totalDonated (find (\<lambda>x. address x = a) (donors (donor_upsert a amt now w)))
     = Some ((case find (\<lambda>x. address x = a) (donors w) of
                None \<Rightarrow> 0 | Some x \<Rightarrow> totalDonated x) + amt)"
proof (cases "find (\<lambda>x. address x = a) (donors w)")
  case None
  then have "\<not> (\<exists>x \<in> set (donors w). address x = a)" by (simp add: find_None_iff)
  then show ?thesis using None by (simp add: donor_upsert_def find_append_new)
next
  case (Some x)
  then have "find (\<lambda>x. address x = a) (donors w) \<noteq> None" by simp
  then have "\<exists>x. x \<in> set (donors w) \<and> address x = a" by (simp add: find_None_iff)
  then have "\<exists>x \<in> set (donors w). address x = a" by blast
  then show ?thesis using Some by (simp add: donor_upsert_def find_map_address)
qed

lemma leaderboard_keys_differ:
  "CacheKeys_leaderboard_global \<noteq> CacheKeys_leaderboard_campaign i"
  by (simp add: CacheKeys_leaderboard_global_def CacheKeys_leaderboard_campaign_def)

lemma incrementLeaderboard_at:
  "leaderboards (incrementLeaderboard k m i w) (k, m)
     = Some (toDouble ((case leaderboards w (k, m) of None \<Rightarrow> 0 | Some s \<Rightarrow> s) + i))"
  by (simp add: incrementLeaderboard_def)

lemma incrementLeaderboard_other:
  "k' \<noteq> k \<Longrightarrow> leaderboards (incrementLeaderboard k' m' i w) (k, m) = leaderboards w (k, m)"
  by (simp add: incrementLeaderboard_def)

text \<open>
  C5 (as amended).  The increments of the campaign's running total and of the donor's total
  are exact integer additions of the amount.  A leaderboard score is a double: an increment
  adds the double nearest to the amount and rounds the sum to a double again, so the score is
  the exact sum only while the values fit a double (as they do below \<open>2 ^ 53\<close>).
\<close>

theorem amount_arithmetic:
  assumes sp: "DonationEventSchema_safeParse isUuid (r_payload e) = Some d"
    and nr: "donation_findUnique (p_txHash d) w = None"
    and cf: "campaign_findUnique_onChainId (p_campaignOnChainId d) w = Some c"
  shows "map_option totalDonated
           (find (\<lambda>x. address x = toLowerCase (p_donor d))
              (donors (world_of (handleDonationEvent isUuid e now nid w))))
         = Some ((case find (\<lambda>x. address x = toLowerCase (p_donor d)) (donors w) of
                    None \<Rightarrow> 0 | Some x \<Rightarrow> totalDonated x) + p_amount d)
       \<and> leaderboards (world_of (handleDonationEvent isUuid e now nid w))
           (CacheKeys_leaderboard_global, toLowerCase (p_donor d))
         = Some (toDouble
             ((case leaderboards w (CacheKeys_leaderboard_global, toLowerCase (p_donor d)) of
                 None \<Rightarrow> 0 | Some s \<Rightarrow> s) + toDouble (p_amount d)))
       \<and> leaderboards (world_of (handleDonationEvent isUuid e now nid w))
           (CacheKeys_leaderboard_campaign (c_id c), toLowerCase (p_donor d))
         = Some (toDouble
             ((case leaderboards w (CacheKeys_leaderboard_campaign (c_id c),
                                    toLowerCase (p_donor d)) of
                 None \<Rightarrow> 0 | Some s \<Rightarrow> s) + toDouble (p_amount d)))
       \<and> (\<bar>p_amount d\<bar> < 2 ^ 53
           \<and> \<bar>(case leaderboards w (CacheKeys_leaderboard_global, toLowerCase (p_donor d)) of
                 None \<Rightarrow> 0 | Some s \<Rightarrow> s) + p_amount d\<bar> < 2 ^ 53 \<longrightarrow>
          leaderboards (world_of (handleDonationEvent isUuid e now nid w))
            (CacheKeys_leaderboard_global, toLowerCase (p_donor d))
          = Some ((case leaderboards w (CacheKeys_leaderboard_global, toLowerCase (p_donor d)) of
                     None \<Rightarrow> 0 | Some s \<Rightarrow> s) + p_amount d))
       \<and> (campaign_findUnique_id cid w = Some c0 \<longrightarrow>
          (\<exists>w' c'. updateCampaignTotals cid a w = Done w'
             \<and> campaign_findUnique_id cid w' = Some c'
             \<and> currentAmount c' = currentAmount c0 + a))"
proof -
  have don: "map_option totalDonated
           (find (\<lambda>x. address x = toLowerCase (p_donor d))
              (donors (world_of (handleDonationEvent isUuid e now nid w))))
         = Some ((case find (\<lambda>x. address x = toLowerCase (p_donor d)) (donors w) of
                    None \<Rightarrow> 0 | Some x \<Rightarrow> totalDonated x) + p_amount d)"
    using donor_upsert_total
      [of "toLowerCase (p_donor d)" "p_amount d" now
          "w\<lparr>donations := donations w @
                              [\<lparr>d_id = nid, txHash = p_txHash d, d_campaignId = c_id c,
                                donorAddress = toLowerCase (p_donor d),
                                amount = p_amount d, message = p_message d,
                                sdsEventId = Some (p_eventId d),
                                sdsReceivedAt = Some (p_timestamp d),
                                d_status = PENDING,
                                blockNumber = (case p_blockNumber d of
                                                 None \<Rightarrow> None
                                               | Some b \<Rightarrow> if b = 0 then None else Some b),
                                blockTimestamp = None, confirmedAt = None,
                                createdAt = now\<rparr>]\<rparr>"]
    by (simp add: handleDonationEvent_created [OF sp nr cf])
  have g: "leaderboards (world_of (handleDonationEvent isUuid e now nid w))
           (CacheKeys_leaderboard_global, toLowerCase (p_donor d))
         = Some (toDouble
             ((case leaderboards w (CacheKeys_leaderboard_global, toLowerCase (p_donor d)) of
                 None \<Rightarrow> 0 | Some s \<Rightarrow> s) + toDouble (p_amount d)))"
    by (simp add: handleDonationEvent_created [OF sp nr cf] incrementLeaderboard_at
        incrementLeaderboard_other leaderboard_keys_differ [symmetric] parseFloat_def)
  have k: "leaderboards (world_of (handleDonationEvent isUuid e now nid w))
           (CacheKeys_leaderboard_campaign (c_id c), toLowerCase (p_donor d))
         = Some (toDouble
             ((case leaderboards w (CacheKeys_leaderboard_campaign (c_id c),
                                    toLowerCase (p_donor d)) of
                 None \<Rightarrow> 0 | Some s \<Rightarrow> s) + toDouble (p_amount d)))"
    by (simp add: handleDonationEvent_created [OF sp nr cf] incrementLeaderboard_at
        incrementLeaderboard_other leaderboard_keys_differ parseFloat_def)
  have x: "\<bar>p_amount d\<bar> < 2 ^ 53
           \<and> \<bar>(case leaderboards w (CacheKeys_leaderboard_global, toLowerCase (p_donor d)) of
                 None \<Rightarrow> 0 | Some s \<Rightarrow> s) + p_amount d\<bar> < 2 ^ 53 \<longrightarrow>
          leaderboards (world_of (handleDonationEvent isUuid e now nid w))
            (CacheKeys_leaderboard_global, toLowerCase (p_donor d))
          = Some ((case leaderboards w (CacheKeys_leaderboard_global, toLowerCase (p_donor d)) of
                     None \<Rightarrow> 0 | Some s \<Rightarrow> s) + p_amount d)"
    unfolding g by (simp add: toDouble_exact)
  have u: "campaign_findUnique_id cid w = Some c0 \<longrightarrow>
          (\<exists>w' c'. updateCampaignTotals cid a w = Done w'
             \<and> campaign_findUnique_id cid w' = Some c'
             \<and> currentAmount c' = currentAmount c0 + a)"
    by (auto simp add: updateCampaignTotals_found campaign_findUnique_id_modify)
  from don g k x u show ?thesis by blast
qed


text \<open>The amended C5 on an announcement of 5000 wei in the empty store.\<close>

theorem amount_arithmetic_witness:
  "DonationEventSchema_safeParse uuid36 (r_payload announcedSmall)
     = Some (fieldsAA\<lparr>p_amount := 5000\<rparr>)
   \<and> donation_findUnique (p_txHash (fieldsAA\<lparr>p_amount := 5000\<rparr>)) world0 = None
   \<and> campaign_findUnique_onChainId (p_campaignOnChainId (fieldsAA\<lparr>p_amount := 5000\<rparr>)) world0
       = Some campaign1
   \<and> map_option totalDonated
         (find (\<lambda>x. address x = donorA_lower)
            (donors (world_of (handleDonationEvent uuid36 announcedSmall 1700000000000 ''d1''
                                 world0))))
       = Some 5000
   \<and> leaderboards (world_of (handleDonationEvent uuid36 announcedSmall 1700000000000 ''d1'' world0))
        (CacheKeys_leaderboard_global, donorA_lower) = Some 5000
   \<and> campaign_findUnique_id ''c1'' world0 = Some campaign1
   \<and> (\<exists>w' c'. updateCampaignTotals ''c1'' 5000 world0 = Done w'
         \<and> campaign_findUnique_id ''c1'' w' = Some c'
         \<and> currentAmount c' = 5000)"
proof -
  have ad: "isAddress donorA" by (simp add: isAddress_def isHex_def donorA_def)
  have tx: "isTxHash txAA" by (simp add: isTxHash_def isHex_def txAA_def)
  have sp: "DonationEventSchema_safeParse uuid36 (r_payload announcedSmall)
     = Some (fieldsAA\<lparr>p_amount := 5000\<rparr>)"
    using ad tx
    by (simp add: DonationEventSchema_safeParse_def announcedSmall_def announcedAA_def
        fieldsAA_def uuid36_def)
  have nr: "donation_findUnique (p_txHash (fieldsAA\<lparr>p_amount := 5000\<rparr>)) world0 = None"
    by (simp add: donation_findUnique_def world0_def)
  have cf: "campaign_findUnique_onChainId (p_campaignOnChainId (fieldsAA\<lparr>p_amount := 5000\<rparr>))
              world0 = Some campaign1"
    by (simp add: campaign_findUnique_onChainId_def world0_def campaign1_def fieldsAA_def)
  have ci: "campaign_findUnique_id ''c1'' world0 = Some campaign1"
    by (simp add: campaign_findUnique_id_def world0_def campaign1_def)
  have low: "toLowerCase (p_donor fieldsAA) = donorA_lower"
    by (simp add: toLowerCase_def lowerChar_def donorA_def donorA_lower_def fieldsAA_def)
  have z: "donors world0 = []" "leaderboards world0 = (\<lambda>k. None)"
    "currentAmount campaign1 = 0"
    by (simp_all add: world0_def campaign1_def)
  note t = amount_arithmetic [OF sp nr cf, where now = 1700000000000 and nid = "''d1''"
      and cid = "''c1''" and ?c0.0 = campaign1 and a = 5000]
  from t ci have "\<exists>w' c'. updateCampaignTotals ''c1'' 5000 world0 = Done w'
         \<and> campaign_findUnique_id ''c1'' w' = Some c'
         \<and> currentAmount c' = currentAmount campaign1 + 5000" by blast
  then have u: "\<exists>w' c'. updateCampaignTotals ''c1'' 5000 world0 = Done w'
         \<and> campaign_findUnique_id ''c1'' w' = Some c'
         \<and> currentAmount c' = 5000" by (simp add: z)
  from t have d: "map_option totalDonated
         (find (\<lambda>x. address x = donorA_lower)
            (donors (world_of (handleDonationEvent uuid36 announcedSmall 1700000000000 ''d1''
                                 world0))))
       = Some 5000"
    by (simp add: low z)
  have td: "toDouble 5000 = 5000" by (simp add: toDouble_exact)
  from t have l: "leaderboards (world_of (handleDonationEvent uuid36 announcedSmall 1700000000000 ''d1'' world0))
        (CacheKeys_leaderboard_global, donorA_lower) = Some 5000"
    by (simp add: low z td)
  from sp nr cf ci u d l show ?thesis by blast
qed

text \<open>
  C5 as stated fails.  An announcement of \<open>2 ^ 53 + 1\<close> wei is stored exactly in the
  Donation row but raises the donor's leaderboard score by \<open>2 ^ 53\<close>.  A campaign whose
  target is \<open>2 ^ 53 + 1\<close> wei is marked \<open>COMPLETED\<close> when its total is \<open>2 ^ 53\<close>,
  one wei short: the threshold compares two doubles.
\<close>

theorem amount_arithmetic_counterexample:
  "map amount (donations (world_of
      (handleDonationEvent uuid36 announcedBig 1700000000000 ''d1'' world0)))
     = [9007199254740993]
   \<and> leaderboards (world_of (handleDonationEvent uuid36 announcedBig 1700000000000 ''d1'' world0))
        (CacheKeys_leaderboard_global, donorA_lower) = Some 9007199254740992
   \<and> map targetAmount (campaigns world_near_target) = [9007199254740993]
   \<and> map currentAmount (campaigns (world_of
        (updateCampaignTotals ''c1'' 9007199254740992 world_near_target)))
       = [9007199254740992]
   \<and> map c_status (campaigns (world_of
        (updateCampaignTotals ''c1'' 9007199254740992 world_near_target)))
       = [COMPLETED]"
proof -
  have ad: "isAddress donorA" by (simp add: isAddress_def isHex_def donorA_def)
  have tx: "isTxHash txAA" by (simp add: isTxHash_def isHex_def txAA_def)
  have sp: "DonationEventSchema_safeParse uuid36 (r_payload announcedBig)
     = Some (fieldsAA\<lparr>p_amount := 9007199254740993\<rparr>)"
    using ad tx
    by (simp add: DonationEventSchema_safeParse_def announcedBig_def announcedAA_def
        fieldsAA_def uuid36_def)
  have nr: "donation_findUnique (p_txHash (fieldsAA\<lparr>p_amount := 9007199254740993\<rparr>)) world0
              = None"
    by (simp add: donation_findUnique_def world0_def)
  have cf: "campaign_findUnique_onChainId
              (p_campaignOnChainId (fieldsAA\<lparr>p_amount := 9007199254740993\<rparr>)) world0
              = Some campaign1"
    by (simp add: campaign_findUnique_onChainId_def world0_def campaign1_def fieldsAA_def)
  have low: "toLowerCase (p_donor fieldsAA) = donorA_lower"
    by (simp add: toLowerCase_def lowerChar_def donorA_def donorA_lower_def fieldsAA_def)
  have z: "donations world0 = []" "leaderboards world0 = (\<lambda>k. None)"
    by (simp_all add: world0_def)
  have r: "toDouble 9007199254740993 = 9007199254740992"
    "toDouble 9007199254740992 = 9007199254740992"
    by (simp_all add: toDouble_def roundToEven_def expo.simps Let_def)
  have a: "map amount (donations (world_of
      (handleDonationEvent uuid36 announcedBig 1700000000000 ''d1'' world0)))
     = [9007199254740993]"
    by (simp add: handleDonationEvent_created [OF sp nr cf] z)
  have b: "leaderboards (world_of (handleDonationEvent uuid36 announcedBig 1700000000000 ''d1'' world0))
        (CacheKeys_leaderboard_global, donorA_lower) = Some 9007199254740992"
    by (simp add: handleDonationEvent_created [OF sp nr cf] low incrementLeaderboard_at
        incrementLeaderboard_other leaderboard_keys_differ [symmetric] parseFloat_def r z)
  have ci: "campaign_findUnique_id ''c1'' world_near_target
              = Some (campaign1\<lparr>targetAmount := 9007199254740993\<rparr>)"
    by (simp add: campaign_findUnique_id_def world_near_target_def world0_def campaign1_def)
  have cz: "campaigns world_near_target = [campaign1\<lparr>targetAmount := 9007199254740993\<rparr>]"
    by (simp add: world_near_target_def world0_def)
  have c: "map targetAmount (campaigns world_near_target) = [9007199254740993]"
    by (simp add: cz)
  have d: "map currentAmount (campaigns (world_of
        (updateCampaignTotals ''c1'' 9007199254740992 world_near_target)))
       = [9007199254740992]"
    "map c_status (campaigns (world_of
        (updateCampaignTotals ''c1'' 9007199254740992 world_near_target)))
       = [COMPLETED]"
    by (simp_all add: updateCampaignTotals_found [OF ci] Number_def r cz campaign1_def)
  from a b c d show ?thesis by blast
qed

section \<open>Fan-out Hub\<close>



section \<open>Stream Listener: reconnecting\<close>

lemma scheduleReconnect_timer:
  "reconnectTimer (scheduleReconnect st)
     = Some (min (reconnectInterval * 2 ^ reconnectAttempts st) 60000)"
  by (simp add: scheduleReconnect_def l_log_def Let_def)


lemma connect_never_rejects:
  "\<not> errorListener st \<Longrightarrow> fst (connect EndpointOk outcome now st) \<noteq> Rejected"
  by (cases outcome) (simp_all add: connect_def emit_error_def l_log_def Let_def)














text \<open>
  The bound rests on the \<open>error\<close> event of the service having no listener, as in this
  repository: the socket's error handler then ends in \<open>emit\<close> and the promise of
  \<open>connect\<close> is never rejected.  With a listener registered, a failed attempt reaches
  the \<open>catch\<close> of the timer callback, which schedules again without reading the
  counter.
\<close>

lemma registered_error_listener_reschedules:
  assumes "errorListener st" and "\<not> connected st"
  shows "reconnectTimer (reconnectTimerFired EndpointOk (Errors msg) now st)
       = Some (min (reconnectInterval * 2 ^ (reconnectAttempts st + 1)) 60000)"
  using assms
  by (simp add: reconnectTimerFired_def connect_def emit_error_def emit_def
      scheduleReconnect_def l_log_def Let_def)

end
